theory Spec2Isabelle
  imports Complex_Main "HOL-Library.Log_Nat"
begin

section \<open>JavaScript values\<close>

text \<open>
  The backend (\<^verbatim>\<open>backend/index.js\<close>) works on values produced by \<^verbatim>\<open>JSON.parse\<close>: the
  audit tool's output, the request body and the stored history. They are modelled by
  the datatype \<open>json\<close>. Conventions of the representation:
  \<^item> a string is a list of code units; the model covers the code units U+0000 to U+00FF,
    one \<open>char\<close> each;
  \<^item> a number is the exact rational value of the binary64 number (the two zeros are
    identified; a literal beyond the binary64 range lies outside the model);
  \<^item> \<open>JObj kvs\<close> lists the own properties of the object in the order in which
    \<^verbatim>\<open>Object.entries\<close> enumerates them;
  \<^item> \<^verbatim>\<open>undefined\<close> is not a JSON value: an expression that may be undefined has type
    \<open>json option\<close>, with \<open>None\<close> for \<^verbatim>\<open>undefined\<close>.
\<close>

datatype json =
    JNull
  | JBool bool
  | JNum rat
  | JStr string
  | JArr "json list"
  | JObj "(string \<times> json) list"

text \<open>
  Exceptions are values. \<open>Error m\<close> is \<^verbatim>\<open>new Error(m)\<close>; \<open>TypeError m\<close> is the
  engine's TypeError (reading a property of \<^verbatim>\<open>null\<close>, calling a method that does not
  exist, converting an object that has no usable \<^verbatim>\<open>toString\<close>), whose message text is
  the engine's and is written here as V8 prints it.
\<close>

datatype error = Error string | TypeError string

text \<open>
  A computed number can also be \<^verbatim>\<open>NaN\<close> or infinite. Two conversions of the language are
  not modelled and are taken as parameters of every function that reaches them:
  \<^verbatim>\<open>Number::toString\<close> (the shortest decimal text that reads back as the same binary64
  number) and \<^verbatim>\<open>StringToNumber\<close> (the numeric value of a string). Every result below
  holds for whatever these two functions are.
\<close>

datatype jsnum = Finite rat | PInfinity | NInfinity | NaN

record js_builtins =
  Number_toString :: "rat \<Rightarrow> string"
  StringToNumber :: "string \<Rightarrow> jsnum"

text \<open>Truthiness (\<^verbatim>\<open>ToBoolean\<close>) and the operator \<^verbatim>\<open>a || b\<close>.\<close>

fun truthy :: "json \<Rightarrow> bool" where
  "truthy JNull = False"
| "truthy (JBool b) = b"
| "truthy (JNum q) = (q \<noteq> 0)"
| "truthy (JStr s) = (s \<noteq> [])"
| "truthy (JArr xs) = True"
| "truthy (JObj kvs) = True"

fun js_or :: "json option \<Rightarrow> json \<Rightarrow> json" where
  "js_or None d = d"
| "js_or (Some v) d = (if truthy v then v else d)"

text \<open>
  A property read \<^verbatim>\<open>v.k\<close> on a value that is not \<^verbatim>\<open>null\<close>, for the property names the
  backend reads (\<^verbatim>\<open>vulnerabilities\<close>, \<^verbatim>\<open>via\<close>, \<^verbatim>\<open>title\<close>, \<^verbatim>\<open>severity\<close>, \<^verbatim>\<open>cvss\<close>,
  \<^verbatim>\<open>score\<close>, \<^verbatim>\<open>url\<close>, \<^verbatim>\<open>fixAvailable\<close>, \<^verbatim>\<open>metadata\<close>, \<^verbatim>\<open>dependencies\<close>, \<^verbatim>\<open>total\<close>,
  \<^verbatim>\<open>prod\<close>, \<^verbatim>\<open>name\<close>, \<^verbatim>\<open>packageJson\<close>, \<^verbatim>\<open>projectName\<close>): none of them is defined by a
  prototype, so the read finds an own property of an object or nothing. A read on
  \<^verbatim>\<open>null\<close> raises a TypeError; the functions below test for \<^verbatim>\<open>null\<close> before they read.
\<close>

fun get_prop :: "json \<Rightarrow> string \<Rightarrow> json option" where
  "get_prop (JObj kvs) k = map_of kvs k"
| "get_prop v k = None"

text \<open>Decimal digits of an array index or a count.\<close>

fun decimal :: "nat \<Rightarrow> string" where
  "decimal n =
     (if n < 10 then [char_of (48 + n)]
      else decimal (n div 10) @ [char_of (48 + n mod 10)])"

declare decimal.simps [simp del]

text \<open>\<^verbatim>\<open>Object.entries(v)\<close>: own enumerable properties; it raises on \<^verbatim>\<open>null\<close>.\<close>

fun Object_entries :: "json \<Rightarrow> error + (string \<times> json) list" where
  "Object_entries JNull = Inl (TypeError ''Cannot convert undefined or null to object'')"
| "Object_entries (JObj kvs) = Inr kvs"
| "Object_entries (JArr xs) = Inr (zip (map decimal [0..<length xs]) xs)"
| "Object_entries (JStr s) = Inr (zip (map decimal [0..<length s]) (map (\<lambda>c. JStr [c]) s))"
| "Object_entries (JBool b) = Inr []"
| "Object_entries (JNum q) = Inr []"

text \<open>
  \<^verbatim>\<open>ToString\<close>, as \<^verbatim>\<open>String(v)\<close> and a template literal apply it. An array is the join
  of its elements with commas, \<^verbatim>\<open>null\<close> elements giving the empty string. An object is
  converted by its \<^verbatim>\<open>toString\<close> method: the one of \<^verbatim>\<open>Object.prototype\<close> gives
  \<^verbatim>\<open>[object Object]\<close>, but an object parsed from JSON that has a property named
  \<^verbatim>\<open>toString\<close> of its own hides that method behind a value that cannot be called;
  \<^verbatim>\<open>valueOf\<close> then gives no primitive either, and the conversion raises a TypeError.
  \<open>collect\<close> gathers the results of a list of conversions, up to the first exception.
\<close>

fun collect :: "(error + 'a) list \<Rightarrow> error + 'a list" where
  "collect [] = Inr []"
| "collect (r # rs) =
     (case r of
        Inl e \<Rightarrow> Inl e
      | Inr x \<Rightarrow> (case collect rs of Inl e \<Rightarrow> Inl e | Inr xs \<Rightarrow> Inr (x # xs)))"

definition has_own_toString :: "(string \<times> json) list \<Rightarrow> bool" where
  "has_own_toString kvs = (map_of kvs ''toString'' \<noteq> None)"

fun join_comma :: "string list \<Rightarrow> string" where
  "join_comma [] = []"
| "join_comma [s] = s"
| "join_comma (s # t # ss) = s @ '','' @ join_comma (t # ss)"

fun ToString :: "js_builtins \<Rightarrow> json \<Rightarrow> error + string" where
  "ToString js JNull = Inr ''null''"
| "ToString js (JBool b) = Inr (if b then ''true'' else ''false'')"
| "ToString js (JNum q) = Inr (Number_toString js q)"
| "ToString js (JStr s) = Inr s"
| "ToString js (JArr xs) =
     (case collect (map (\<lambda>x. if x = JNull then Inr [] else ToString js x) xs) of
        Inl e \<Rightarrow> Inl e
      | Inr ss \<Rightarrow> Inr (join_comma ss))"
| "ToString js (JObj kvs) =
     (if has_own_toString kvs then Inl (TypeError ''Cannot convert object to primitive value'')
      else Inr ''[object Object]'')"

text \<open>
  \<^verbatim>\<open>toLowerCase\<close> on the code units of the model: the letters A to Z and the capital
  letters of U+00C0 to U+00DE (U+00D7, the multiplication sign, is not a letter).
\<close>

definition lower_char :: "char \<Rightarrow> char" where
  "lower_char c =
     (let n = (of_char c :: nat)
      in if (65 \<le> n \<and> n \<le> 90) \<or> (192 \<le> n \<and> n \<le> 222 \<and> n \<noteq> 215)
         then char_of (n + 32) else c)"

definition toLowerCase :: "string \<Rightarrow> string" where
  "toLowerCase s = map lower_char s"

text \<open>\<^verbatim>\<open>s.includes(pat)\<close>: the pattern occurs at some position.\<close>

fun str_includes :: "string \<Rightarrow> string \<Rightarrow> bool" where
  "str_includes [] pat = (pat = [])"
| "str_includes (c # cs) pat = (take (length pat) (c # cs) = pat \<or> str_includes cs pat)"

section \<open>Severity and risk\<close>

text \<open>
  \<^verbatim>\<open>function normalizeSeverity(raw) {
    if (!raw) return 'low';
    const s = String(raw).toLowerCase();
    if (s.includes('critical')) return 'critical';
    if (s.includes('high')) return 'high';
    if (s.includes('moderate') || s.includes('medium')) return 'moderate';
    return 'low';
  }\<close>
\<close>

definition normalizeSeverity :: "js_builtins \<Rightarrow> json option \<Rightarrow> error + string" where
  "normalizeSeverity js raw =
     (case raw of
        None \<Rightarrow> Inr ''low''
      | Some v \<Rightarrow>
          if \<not> truthy v then Inr ''low''
          else (case ToString js v of
                  Inl e \<Rightarrow> Inl e
                | Inr str \<Rightarrow>
                    let s = toLowerCase str
                    in if str_includes s ''critical'' then Inr ''critical''
                       else if str_includes s ''high'' then Inr ''high''
                       else if str_includes s ''moderate'' \<or> str_includes s ''medium''
                       then Inr ''moderate''
                       else Inr ''low''))"

text \<open>
  A vulnerability record, as \<^verbatim>\<open>extractVulnerabilitiesFromAudit\<close> pushes it. The fields
  \<^verbatim>\<open>title\<close>, \<^verbatim>\<open>description\<close>, \<^verbatim>\<open>severity\<close> and \<^verbatim>\<open>cvssScore\<close> hold whatever value
  the audit output had there, so their type is \<open>json\<close>.
\<close>

record Vulnerability =
  v_id :: string
  v_name :: string
  v_title :: json
  v_description :: json
  v_severity :: json
  v_cvssScore :: json
  v_package :: string
  v_fixAvailable :: string

text \<open>
  The counts are numbers that start at 0 and grow by 1 for each record, so they are
  natural numbers (exact in binary64 far beyond the length of any array).
  \<^verbatim>\<open>counts[sev] += 1\<close> with a key other than the four would add a property and leave the
  four counts as they are.
\<close>

record SeverityCounts =
  critical :: nat
  high :: nat
  moderate :: nat
  low :: nat

definition count_up :: "string \<Rightarrow> SeverityCounts \<Rightarrow> SeverityCounts" where
  "count_up sev counts =
     (if sev = ''critical'' then counts\<lparr>critical := critical counts + 1\<rparr>
      else if sev = ''high'' then counts\<lparr>high := high counts + 1\<rparr>
      else if sev = ''moderate'' then counts\<lparr>moderate := moderate counts + 1\<rparr>
      else if sev = ''low'' then counts\<lparr>low := low counts + 1\<rparr>
      else counts)"

text \<open>
  \<^verbatim>\<open>function buildSeverityCounts(vulns) {
    const counts = { critical: 0, high: 0, moderate: 0, low: 0 };
    for (const v of vulns) {
      const sev = normalizeSeverity(v.severity);
      counts[sev] += 1;
    }
    return counts;
  }\<close>
  \<open>count_loop\<close> is the loop; an exception of \<open>normalizeSeverity\<close> leaves the function.
\<close>

fun count_loop ::
  "js_builtins \<Rightarrow> Vulnerability list \<Rightarrow> SeverityCounts \<Rightarrow> error + SeverityCounts" where
  "count_loop js [] counts = Inr counts"
| "count_loop js (v # vs) counts =
     (case normalizeSeverity js (Some (v_severity v)) of
        Inl e \<Rightarrow> Inl e
      | Inr sev \<Rightarrow> count_loop js vs (count_up sev counts))"

definition buildSeverityCounts ::
  "js_builtins \<Rightarrow> Vulnerability list \<Rightarrow> error + SeverityCounts" where
  "buildSeverityCounts js vulns =
     count_loop js vulns \<lparr>critical = 0, high = 0, moderate = 0, low = 0\<rparr>"

subsection \<open>Binary64 arithmetic\<close>

text \<open>
  The risk score divides and multiplies numbers, and a JavaScript number is a binary64
  floating-point number: the result of an operation is the exact result rounded to the
  nearest number with a 53-bit significand, a tie going to the even significand.
  \<open>ilog2 x\<close> is the exponent of the binade of \<open>x > 0\<close>, \<open>rne\<close> rounds to the nearest
  integer with ties to even, and \<open>fl64\<close> rounds a rational to binary64 (exponents below
  \<open>-1022\<close> share the spacing of the subnormal numbers). \<open>fl64\<close> does not model overflow
  to infinity: \<open>fdiv\<close> and \<open>fmul\<close> are the division and multiplication of finite numbers
  whose result is below \<open>2 ^ 1024\<close>.
\<close>

definition ilog2 :: "rat \<Rightarrow> int" where
  "ilog2 x =
     (case quotient_of x of (p, q) \<Rightarrow>
        let d = bitlen p - bitlen q in if 2 powi d \<le> x then d else d - 1)"

definition rne :: "rat \<Rightarrow> int" where
  "rne y =
     (let f = \<lfloor>y\<rfloor>; r = y - of_int f
      in if r < 1/2 then f else if 1/2 < r then f + 1 else if even f then f else f + 1)"

definition fl64 :: "rat \<Rightarrow> rat" where
  "fl64 x =
     (if x = 0 then 0
      else let a = \<bar>x\<bar>; e = max (ilog2 a) (- 1022); u = 2 powi (e - 52)
           in sgn x * (of_int (rne (a / u)) * u))"

definition fdiv :: "rat \<Rightarrow> rat \<Rightarrow> rat" where
  "fdiv a b = fl64 (a / b)"

definition fmul :: "rat \<Rightarrow> rat \<Rightarrow> rat" where
  "fmul a b = fl64 (a * b)"

text \<open>\<^verbatim>\<open>Math.round\<close>: the nearest integer, a tie going up.\<close>

definition Math_round :: "rat \<Rightarrow> int" where
  "Math_round x = \<lfloor>x + 1/2\<rfloor>"

text \<open>
  \<^verbatim>\<open>function computeRiskScore(counts) {
    const weights = { critical: 4, high: 3, moderate: 2, low: 1 };
    const total = counts.critical + counts.high + counts.moderate + counts.low;
    if (total === 0) return 0;
    const weighted = counts.critical * weights.critical + counts.high * weights.high +
      counts.moderate * weights.moderate + counts.low * weights.low;
    return Math.round((weighted / (total * 4)) * 100);
  }\<close>
  The sums and products of the counts are integers below \<open>2 ^ 53\<close>, which binary64
  represents exactly; the quotient and the product by 100 are rounded.
\<close>

definition computeRiskScore :: "SeverityCounts \<Rightarrow> int" where
  "computeRiskScore counts =
     (let total = critical counts + high counts + moderate counts + low counts
      in if total = 0 then 0
         else let weighted = critical counts * 4 + high counts * 3
                             + moderate counts * 2 + low counts * 1
              in Math_round (fmul (fdiv (of_nat weighted) (of_nat (total * 4))) 100))"

text \<open>
  The score as the specification words it: 0 for no vulnerability, otherwise
  \<open>100 \<times> \<Sigma>(count \<times> weight) / (total \<times> 4)\<close> rounded to the nearest integer, half up,
  in exact arithmetic.
\<close>

definition exact_ratio :: "SeverityCounts \<Rightarrow> rat" where
  "exact_ratio counts =
     100 * of_nat (4 * critical counts + 3 * high counts + 2 * moderate counts + 1 * low counts)
       / of_nat ((critical counts + high counts + moderate counts + low counts) * 4)"

definition spec_score :: "SeverityCounts \<Rightarrow> int" where
  "spec_score counts =
     (if critical counts + high counts + moderate counts + low counts = 0 then 0
      else round (exact_ratio counts))"

section \<open>Extraction from the audit output\<close>

text \<open>The operators \<^verbatim>\<open>a ?? b\<close> and \<^verbatim>\<open>a?.k\<close>, and the truthiness of a value that may be undefined.\<close>

fun js_nullish :: "json option \<Rightarrow> json \<Rightarrow> json" where
  "js_nullish None d = d"
| "js_nullish (Some JNull) d = d"
| "js_nullish (Some v) d = v"

fun opt_chain :: "json option \<Rightarrow> string \<Rightarrow> json option" where
  "opt_chain None k = None"
| "opt_chain (Some JNull) k = None"
| "opt_chain (Some v) k = get_prop v k"

fun truthy_opt :: "json option \<Rightarrow> bool" where
  "truthy_opt None = False"
| "truthy_opt (Some v) = truthy v"

text \<open>
  \<^verbatim>\<open>function extractVulnerabilitiesFromAudit(auditJson) {
    const vulns = [];
    if (!auditJson || !auditJson.vulnerabilities) return vulns;
    for (const [pkgName, v] of Object.entries(auditJson.vulnerabilities)) {
      const via = Array.isArray(v.via) ? v.via : [];
      via.forEach((issue, idx) => {
        const title = issue.title || `Issue ${idx + 1} in ${pkgName}`;
        const severity = issue.severity || v.severity || 'low';
        const cvssScore = issue.cvss?.score ?? 0;
        vulns.push({
          id: `${pkgName}-${idx}`, name: pkgName, title,
          description: issue.url ? `${title} (see: ${issue.url})` : title,
          severity, cvssScore, package: pkgName,
          fixAvailable: v.fixAvailable ? 'yes' : 'no'
        });
      });
    }
    return vulns;
  }\<close>
  \<open>issue_record\<close> is the body of the callback, \<open>via_records\<close> the \<^verbatim>\<open>forEach\<close> and
  \<open>entries_records\<close> the \<^verbatim>\<open>for\<close> loop. The reads \<^verbatim>\<open>issue.title\<close> and \<^verbatim>\<open>v.via\<close> raise
  when the issue or the package entry is \<^verbatim>\<open>null\<close>, the template of the description
  raises when the title or the URL has no string form, and the exception leaves the
  function.
\<close>

definition issue_record ::
  "js_builtins \<Rightarrow> string \<Rightarrow> json \<Rightarrow> nat \<Rightarrow> json \<Rightarrow> error + Vulnerability" where
  "issue_record js pkgName v idx issue =
     (if issue = JNull
      then Inl (TypeError ''Cannot read properties of null (reading 'title')'')
      else
        let title = js_or (get_prop issue ''title'')
                      (JStr (''Issue '' @ decimal (idx + 1) @ '' in '' @ pkgName));
            severity = js_or (get_prop issue ''severity'')
                         (js_or (get_prop v ''severity'') (JStr ''low''));
            cvssScore = js_nullish (opt_chain (get_prop issue ''cvss'') ''score'') (JNum 0)
        in (case (case get_prop issue ''url'' of
                    None \<Rightarrow> Inr title
                  | Some url \<Rightarrow>
                      if truthy url
                      then (case ToString js title of
                              Inl e \<Rightarrow> Inl e
                            | Inr t \<Rightarrow>
                                (case ToString js url of
                                   Inl e \<Rightarrow> Inl e
                                 | Inr u \<Rightarrow> Inr (JStr (t @ '' (see: '' @ u @ '')''))))
                      else Inr title) of
              Inl e \<Rightarrow> Inl e
            | Inr description \<Rightarrow>
                Inr \<lparr>v_id = pkgName @ ''-'' @ decimal idx,
                     v_name = pkgName,
                     v_title = title,
                     v_description = description,
                     v_severity = severity,
                     v_cvssScore = cvssScore,
                     v_package = pkgName,
                     v_fixAvailable =
                       (if truthy_opt (get_prop v ''fixAvailable'') then ''yes'' else ''no'')\<rparr>))"

fun via_records ::
  "js_builtins \<Rightarrow> string \<Rightarrow> json \<Rightarrow> nat \<Rightarrow> json list \<Rightarrow> error + Vulnerability list" where
  "via_records js pkgName v idx [] = Inr []"
| "via_records js pkgName v idx (issue # rest) =
     (case issue_record js pkgName v idx issue of
        Inl e \<Rightarrow> Inl e
      | Inr r \<Rightarrow>
          (case via_records js pkgName v (idx + 1) rest of
             Inl e \<Rightarrow> Inl e
           | Inr rs \<Rightarrow> Inr (r # rs)))"

text \<open>\<^verbatim>\<open>Array.isArray(v.via) ? v.via : []\<close>, for a package entry that is not \<^verbatim>\<open>null\<close>.\<close>

definition via_of :: "json \<Rightarrow> json list" where
  "via_of v = (case get_prop v ''via'' of Some (JArr xs) \<Rightarrow> xs | _ \<Rightarrow> [])"

fun entries_records :: "js_builtins \<Rightarrow> (string \<times> json) list \<Rightarrow> error + Vulnerability list" where
  "entries_records js [] = Inr []"
| "entries_records js ((pkgName, v) # rest) =
     (if v = JNull
      then Inl (TypeError ''Cannot read properties of null (reading 'via')'')
      else
        (case via_records js pkgName v 0 (via_of v) of
           Inl e \<Rightarrow> Inl e
         | Inr rs \<Rightarrow>
             (case entries_records js rest of
                Inl e \<Rightarrow> Inl e
              | Inr others \<Rightarrow> Inr (rs @ others))))"

definition extractVulnerabilitiesFromAudit ::
  "js_builtins \<Rightarrow> json \<Rightarrow> error + Vulnerability list" where
  "extractVulnerabilitiesFromAudit js auditJson =
     (if \<not> truthy auditJson then Inr []
      else
        (case get_prop auditJson ''vulnerabilities'' of
           None \<Rightarrow> Inr []
         | Some vs \<Rightarrow>
             if \<not> truthy vs then Inr []
             else (case Object_entries vs of
                     Inl e \<Rightarrow> Inl e
                   | Inr es \<Rightarrow> entries_records js es)))"

text \<open>
  \<^verbatim>\<open>function extractDependenciesFromAudit(auditJson) {
    const deps = [];
    const vulnCounts = {};
    if (auditJson && auditJson.vulnerabilities) {
      for (const [pkgName, v] of Object.entries(auditJson.vulnerabilities)) {
        let count = 0;
        if (Array.isArray(v.via)) { count = v.via.length; }
        vulnCounts[pkgName] = count;
      }
    }
    const allNames = new Set(Object.keys(vulnCounts));
    allNames.forEach((name) => {
      deps.push({ name, version: 'unknown', type: 'prod',
                  vulnerabilities: vulnCounts[name] || 0 });
    });
    return deps;
  }\<close>
  \<^verbatim>\<open>vulnCounts\<close> is an ordinary object used as a dictionary. An assignment
  \<^verbatim>\<open>vulnCounts[k] = count\<close> creates or overwrites the own property \<open>k\<close>, with one
  exception of the language: for \<open>k = "__proto__"\<close> the assignment calls the setter that
  \<^verbatim>\<open>Object.prototype\<close> defines for this name, which ignores a value that is neither an
  object nor \<^verbatim>\<open>null\<close>; a number is ignored, and no own property is created. (An object
  that \<^verbatim>\<open>JSON.parse\<close> builds does get an own property of this name, which
  \<^verbatim>\<open>Object.entries\<close> enumerates.) \<open>assign_count\<close> is this assignment. The keys of
  \<^verbatim>\<open>vulnCounts\<close> are distinct, so the \<^verbatim>\<open>Set\<close> holds them in their order.
\<close>

record DependencyRecord =
  d_name :: string
  d_version :: string
  d_type :: string
  d_vulnerabilities :: nat

fun assign_own :: "string \<Rightarrow> nat \<Rightarrow> (string \<times> nat) list \<Rightarrow> (string \<times> nat) list" where
  "assign_own k c [] = [(k, c)]"
| "assign_own k c ((k', c') # rest) =
     (if k' = k then (k, c) # rest else (k', c') # assign_own k c rest)"

definition assign_count :: "string \<Rightarrow> nat \<Rightarrow> (string \<times> nat) list \<Rightarrow> (string \<times> nat) list" where
  "assign_count k c vulnCounts = (if k = ''__proto__'' then vulnCounts else assign_own k c vulnCounts)"

fun count_entries ::
  "(string \<times> json) list \<Rightarrow> (string \<times> nat) list \<Rightarrow> error + (string \<times> nat) list" where
  "count_entries [] vulnCounts = Inr vulnCounts"
| "count_entries ((pkgName, v) # rest) vulnCounts =
     (if v = JNull
      then Inl (TypeError ''Cannot read properties of null (reading 'via')'')
      else count_entries rest (assign_count pkgName (length (via_of v)) vulnCounts))"

definition dependency_of :: "(string \<times> nat) list \<Rightarrow> string \<Rightarrow> DependencyRecord" where
  "dependency_of vulnCounts name =
     \<lparr>d_name = name, d_version = ''unknown'', d_type = ''prod'',
      d_vulnerabilities = (case map_of vulnCounts name of None \<Rightarrow> 0 | Some c \<Rightarrow> c)\<rparr>"

definition extractDependenciesFromAudit :: "json \<Rightarrow> error + DependencyRecord list" where
  "extractDependenciesFromAudit auditJson =
     (case (if \<not> truthy auditJson then Inr []
            else (case get_prop auditJson ''vulnerabilities'' of
                    None \<Rightarrow> Inr []
                  | Some vs \<Rightarrow>
                      if \<not> truthy vs then Inr []
                      else (case Object_entries vs of
                              Inl e \<Rightarrow> Inl e
                            | Inr es \<Rightarrow> count_entries es []))) of
        Inl e \<Rightarrow> Inl e
      | Inr vulnCounts \<Rightarrow> Inr (map (dependency_of vulnCounts) (map fst vulnCounts)))"

subsection \<open>The signature summary\<close>

text \<open>
  Arithmetic on numbers that may be \<^verbatim>\<open>NaN\<close> or infinite: \<open>round64\<close> is \<open>fl64\<close> with the
  overflow to infinity, \<open>num_mul\<close> is \<^verbatim>\<open>*\<close>, \<open>num_sub\<close> is \<^verbatim>\<open>-\<close>, \<open>Math_floor\<close> is
  \<^verbatim>\<open>Math.floor\<close> and \<open>ToNumber\<close> is the conversion that \<^verbatim>\<open>*\<close> and \<^verbatim>\<open>-\<close> apply
  to an operand: an array is converted through its string; an object is \<^verbatim>\<open>NaN\<close>, the
  number of \<^verbatim>\<open>[object Object]\<close>, unless a \<^verbatim>\<open>toString\<close> property of its own leaves it
  without a primitive value, which raises a TypeError.
\<close>

definition round64 :: "rat \<Rightarrow> jsnum" where
  "round64 x =
     (let r = fl64 x
      in if 2 powi 1024 \<le> \<bar>r\<bar> then (if 0 < r then PInfinity else NInfinity) else Finite r)"

fun num_mul :: "jsnum \<Rightarrow> jsnum \<Rightarrow> jsnum" where
  "num_mul NaN y = NaN"
| "num_mul x NaN = NaN"
| "num_mul (Finite a) (Finite b) = round64 (a * b)"
| "num_mul (Finite a) PInfinity = (if a = 0 then NaN else if 0 < a then PInfinity else NInfinity)"
| "num_mul (Finite a) NInfinity = (if a = 0 then NaN else if 0 < a then NInfinity else PInfinity)"
| "num_mul PInfinity (Finite b) = (if b = 0 then NaN else if 0 < b then PInfinity else NInfinity)"
| "num_mul NInfinity (Finite b) = (if b = 0 then NaN else if 0 < b then NInfinity else PInfinity)"
| "num_mul PInfinity PInfinity = PInfinity"
| "num_mul PInfinity NInfinity = NInfinity"
| "num_mul NInfinity PInfinity = NInfinity"
| "num_mul NInfinity NInfinity = PInfinity"

fun num_sub :: "jsnum \<Rightarrow> jsnum \<Rightarrow> jsnum" where
  "num_sub NaN y = NaN"
| "num_sub x NaN = NaN"
| "num_sub (Finite a) (Finite b) = round64 (a - b)"
| "num_sub (Finite a) PInfinity = NInfinity"
| "num_sub (Finite a) NInfinity = PInfinity"
| "num_sub PInfinity (Finite b) = PInfinity"
| "num_sub NInfinity (Finite b) = NInfinity"
| "num_sub PInfinity PInfinity = NaN"
| "num_sub PInfinity NInfinity = PInfinity"
| "num_sub NInfinity PInfinity = NInfinity"
| "num_sub NInfinity NInfinity = NaN"

fun Math_floor :: "jsnum \<Rightarrow> jsnum" where
  "Math_floor (Finite q) = Finite (of_int \<lfloor>q\<rfloor>)"
| "Math_floor x = x"

fun ToNumber :: "js_builtins \<Rightarrow> json \<Rightarrow> error + jsnum" where
  "ToNumber js JNull = Inr (Finite 0)"
| "ToNumber js (JBool b) = Inr (Finite (if b then 1 else 0))"
| "ToNumber js (JNum q) = Inr (Finite q)"
| "ToNumber js (JStr s) = Inr (StringToNumber js s)"
| "ToNumber js (JArr xs) =
     (case ToString js (JArr xs) of
        Inl e \<Rightarrow> Inl e
      | Inr s \<Rightarrow> Inr (StringToNumber js s))"
| "ToNumber js (JObj kvs) =
     (if has_own_toString kvs then Inl (TypeError ''Cannot convert object to primitive value'')
      else Inr NaN)"

text \<open>
  \<^verbatim>\<open>function extractSignaturesFromAudit(auditJson) {
    const depsMeta = auditJson?.metadata?.dependencies || {};
    const total = depsMeta.total ?? depsMeta.prod ?? 0;
    const verified = Math.floor(total * 0.7);
    const unverified = total - verified;
    return { status: total ? 'partial' : 'none', message: '...',
             totalPackages: total, verifiedCount: verified, unverifiedCount: unverified,
             verified: [], unverified: [] };
  }\<close>
  The literal \<^verbatim>\<open>0.7\<close> is the binary64 number nearest to 7/10. The product converts
  \<^verbatim>\<open>total\<close> to a number and can raise; the difference converts it again, to the same
  number.
\<close>

record SignatureSummary =
  status :: string
  message :: string
  totalPackages :: json
  verifiedCount :: jsnum
  unverifiedCount :: jsnum
  verified :: "json list"
  unverified :: "json list"

definition extractSignaturesFromAudit ::
  "js_builtins \<Rightarrow> json \<Rightarrow> error + SignatureSummary" where
  "extractSignaturesFromAudit js auditJson =
     (let depsMeta = js_or (opt_chain (opt_chain (Some auditJson) ''metadata'') ''dependencies'')
                       (JObj []);
          total = js_nullish (get_prop depsMeta ''total'')
                    (js_nullish (get_prop depsMeta ''prod'') (JNum 0))
      in (case ToNumber js total of
            Inl e \<Rightarrow> Inl e
          | Inr n \<Rightarrow>
              let nverified = Math_floor (num_mul n (Finite (fl64 (7/10))));
                  nunverified = num_sub n nverified
              in Inr \<lparr>status = (if truthy total then ''partial'' else ''none''),
                      message = ''Verified via npm registry metadata; Sigstore integration planned as future work.'',
                      totalPackages = total,
                      verifiedCount = nverified,
                      unverifiedCount = nunverified,
                      verified = [],
                      unverified = []\<rparr>))"

section \<open>The scan result and its history\<close>

record Summary =
  totalVulnerabilities :: nat
  s_critical :: nat
  s_high :: nat
  s_moderate :: nat
  s_low :: nat
  riskScore :: int

record ScanResult =
  projectId :: string
  projectName :: json
  summary :: Summary
  vulnerabilities :: "Vulnerability list"
  dependencies :: "DependencyRecord list"
  signatures :: SignatureSummary
  scannedAt :: string
  durationMs :: int

text \<open>
  The history file holds \<^verbatim>\<open>JSON.stringify(history, null, 2)\<close> and is read back with
  \<^verbatim>\<open>JSON.parse\<close>. A file is represented by what \<^verbatim>\<open>JSON.parse\<close> makes of its text:
  a value, or a SyntaxError. Written and read back, a value made of JSON values is itself;
  the scan result becomes the JSON value \<open>ScanResult_json\<close>, its properties in the order
  of the object literal, a number that is \<^verbatim>\<open>NaN\<close> or infinite becoming \<^verbatim>\<open>null\<close>.
\<close>

datatype file_content = NotJSON | JSONText json

definition num_json :: "jsnum \<Rightarrow> json" where
  "num_json n = (case n of Finite q \<Rightarrow> JNum q | _ \<Rightarrow> JNull)"

definition Vulnerability_json :: "Vulnerability \<Rightarrow> json" where
  "Vulnerability_json v =
     JObj [(''id'', JStr (v_id v)), (''name'', JStr (v_name v)), (''title'', v_title v),
           (''description'', v_description v), (''severity'', v_severity v),
           (''cvssScore'', v_cvssScore v), (''package'', JStr (v_package v)),
           (''fixAvailable'', JStr (v_fixAvailable v))]"

definition DependencyRecord_json :: "DependencyRecord \<Rightarrow> json" where
  "DependencyRecord_json d =
     JObj [(''name'', JStr (d_name d)), (''version'', JStr (d_version d)),
           (''type'', JStr (d_type d)), (''vulnerabilities'', JNum (of_nat (d_vulnerabilities d)))]"

definition SignatureSummary_json :: "SignatureSummary \<Rightarrow> json" where
  "SignatureSummary_json g =
     JObj [(''status'', JStr (status g)), (''message'', JStr (message g)),
           (''totalPackages'', totalPackages g),
           (''verifiedCount'', num_json (verifiedCount g)),
           (''unverifiedCount'', num_json (unverifiedCount g)),
           (''verified'', JArr (verified g)), (''unverified'', JArr (unverified g))]"

definition Summary_json :: "Summary \<Rightarrow> json" where
  "Summary_json m =
     JObj [(''totalVulnerabilities'', JNum (of_nat (totalVulnerabilities m))),
           (''critical'', JNum (of_nat (s_critical m))), (''high'', JNum (of_nat (s_high m))),
           (''moderate'', JNum (of_nat (s_moderate m))), (''low'', JNum (of_nat (s_low m))),
           (''riskScore'', JNum (of_int (riskScore m)))]"

definition ScanResult_json :: "ScanResult \<Rightarrow> json" where
  "ScanResult_json r =
     JObj [(''projectId'', JStr (projectId r)), (''projectName'', projectName r),
           (''summary'', Summary_json (summary r)),
           (''vulnerabilities'', JArr (map Vulnerability_json (vulnerabilities r))),
           (''dependencies'', JArr (map DependencyRecord_json (dependencies r))),
           (''signatures'', SignatureSummary_json (signatures r)),
           (''scannedAt'', JStr (scannedAt r)), (''durationMs'', JNum (of_int (durationMs r)))]"


text \<open>
  \<^verbatim>\<open>function safeProjectName(name) {
    return (name || 'My Project').replace(/[^a-zA-Z0-9_-]/g, '_');
  }\<close>
  The regular expression has no \<^verbatim>\<open>u\<close> flag, so it works code unit by code unit. Only a
  string has the method \<^verbatim>\<open>replace\<close>: a truthy name of another type raises a TypeError.
\<close>

definition safe_char :: "char \<Rightarrow> bool" where
  "safe_char c =
     (let n = (of_char c :: nat)
      in (97 \<le> n \<and> n \<le> 122) \<or> (65 \<le> n \<and> n \<le> 90) \<or> (48 \<le> n \<and> n \<le> 57)
         \<or> c = CHR ''_'' \<or> c = CHR ''-'')"

definition replace_unsafe :: "string \<Rightarrow> string" where
  "replace_unsafe s = map (\<lambda>c. if safe_char c then c else CHR ''_'') s"

definition safeProjectName :: "json option \<Rightarrow> error + string" where
  "safeProjectName name =
     (case js_or name (JStr ''My Project'') of
        JStr s \<Rightarrow> Inr (replace_unsafe s)
      | _ \<Rightarrow> Inl (TypeError ''(name || \"My Project\").replace is not a function''))"

text \<open>
  The two directories of the backend: \<^verbatim>\<open>.tmp\<close>, where \<open>tmp fs d = Some m\<close> says that the
  directory \<open>d\<close> exists and its \<^verbatim>\<open>package.json\<close> holds the manifest \<open>m\<close>, and
  \<^verbatim>\<open>scan-history\<close>, a map from file names to file contents. The file operations
  themselves are taken to succeed, except the removal of the temporary directory, whose
  failure the source handles.

  \<^verbatim>\<open>function saveScanHistory(projectName, result) {
    const safeName = safeProjectName(projectName);
    const filePath = path.join(historyDir, `${safeName}.json`);
    let history = [];
    if (fs.existsSync(filePath)) {
      try { history = JSON.parse(fs.readFileSync(filePath, 'utf-8')); }
      catch { history = []; }
    }
    history.unshift(result); // newest first
    fs.writeFileSync(filePath, JSON.stringify(history, null, 2), 'utf-8');
  }\<close>
  Only an array has the method \<^verbatim>\<open>unshift\<close>: a stored value of another type raises a
  TypeError, outside the \<^verbatim>\<open>try\<close> (for a stored \<^verbatim>\<open>null\<close>, the TypeError of the read
  of a property of \<^verbatim>\<open>null\<close>).
\<close>

record files =
  tmp :: "string \<Rightarrow> json option"
  history :: "string \<Rightarrow> file_content option"

definition saveScanHistory :: "files \<Rightarrow> json \<Rightarrow> ScanResult \<Rightarrow> error + files" where
  "saveScanHistory fs projName result =
     (case safeProjectName (Some projName) of
        Inl e \<Rightarrow> Inl e
      | Inr safeName \<Rightarrow>
          let filePath = safeName @ ''.json'';
              stored = (case history fs filePath of
                          None \<Rightarrow> JArr []
                        | Some NotJSON \<Rightarrow> JArr []
                        | Some (JSONText h) \<Rightarrow> h)
          in (case stored of
                JArr entries \<Rightarrow>
                  Inr (fs\<lparr>history :=
                         (history fs)(filePath \<mapsto> JSONText (JArr (ScanResult_json result # entries)))\<rparr>)
              | JNull \<Rightarrow> Inl (TypeError ''Cannot read properties of null (reading 'unshift')'')
              | _ \<Rightarrow> Inl (TypeError ''history.unshift is not a function'')))"

section \<open>The scan\<close>

text \<open>
  What a scan takes from its environment: the identifier from \<^verbatim>\<open>uuidv4()\<close>, the two
  readings of \<^verbatim>\<open>Date.now()\<close>, the text of \<^verbatim>\<open>new Date().toISOString()\<close>, the outcomes
  of the two child processes and of the removal of the temporary directory.

  \<^verbatim>\<open>execAsync\<close> resolves with the standard output when the process exits with code 0 and
  rejects otherwise with an error \<open>e\<close> that carries \<^verbatim>\<open>e.message\<close> and \<^verbatim>\<open>e.stdout\<close>. The
  output is represented by what the source does with it: \<open>NoOutput\<close> is the empty
  (or missing) output, which is falsy; \<open>Unparseable m\<close> is a text on which \<^verbatim>\<open>JSON.parse\<close>
  raises a SyntaxError with message \<open>m\<close>; \<open>Parses j\<close> is a text that parses to \<open>j\<close>.
\<close>

datatype stdout = NoOutput | Unparseable string | Parses json

datatype exec_outcome = Resolved stdout | Rejected string stdout

record scan_env =
  uuid :: string
  now_start :: int
  now_end :: int
  now_iso :: string
  npm_install :: "string option"
  npm_audit :: exec_outcome
  rm_failure :: "string option"

text \<open>
  The console. Every line of a scan starts with \<^verbatim>\<open>[${sourceTag} ${scanId}]\<close>; a line is
  its tag, its scan identifier and what it reports. The first line of a scan and the
  line of a failed periodic scan show the project name in its string form.
\<close>

datatype log_event =
    Starting string
  | WrotePackageJson
  | RunningInstall
  | InstallWarning string
  | RunningAudit
  | AuditNonZeroParsed
  | AuditParseFailed string
  | AuditFailedWithoutJSON string
  | ScanComplete nat int
  | CleanedTemp
  | CleanupWarning string

datatype log_line =
    ScanLine string string log_event
  | ManualScanFailed error
  | MonitorFailed string string

text \<open>The same line under another tag.\<close>

fun retag :: "string \<Rightarrow> log_line \<Rightarrow> log_line" where
  "retag t (ScanLine t' scanId event) = ScanLine t scanId event"
| "retag t l = l"

text \<open>
  Step 3 of \<^verbatim>\<open>runScanForProject\<close>:
  \<^verbatim>\<open>let auditJson = {};
  try {
    const { stdout } = await execAsync('npm audit --json --audit-level=low', {...});
    auditJson = JSON.parse(stdout || '{}');
  } catch (e) {
    if (e.stdout) {
      try {
        auditJson = JSON.parse(e.stdout || '{}');
        console.warn(`... npm audit exit code non-zero but JSON parsed`);
      } catch (parseErr) {
        console.error(`... Failed to parse npm audit JSON: ${parseErr.message}`);
        throw new Error('Failed to parse npm audit output');
      }
    } else {
      console.error(`... npm audit failed without JSON: ${e.message}`);
      throw new Error('npm audit failed: ' + e.message);
    }
  }\<close>
  The \<^verbatim>\<open>JSON.parse\<close> of the resolved output stands inside the \<^verbatim>\<open>try\<close>: its
  SyntaxError is caught by the same handler, and a SyntaxError has no \<^verbatim>\<open>stdout\<close>.
\<close>

definition audit_step ::
  "string \<Rightarrow> string \<Rightarrow> exec_outcome \<Rightarrow> (error + json) \<times> log_line list" where
  "audit_step sourceTag scanId outcome =
     (case outcome of
        Resolved NoOutput \<Rightarrow> (Inr (JObj []), [])
      | Resolved (Parses j) \<Rightarrow> (Inr j, [])
      | Resolved (Unparseable m) \<Rightarrow>
          (Inl (Error (''npm audit failed: '' @ m)),
           [ScanLine sourceTag scanId (AuditFailedWithoutJSON m)])
      | Rejected msg NoOutput \<Rightarrow>
          (Inl (Error (''npm audit failed: '' @ msg)),
           [ScanLine sourceTag scanId (AuditFailedWithoutJSON msg)])
      | Rejected msg (Parses j) \<Rightarrow>
          (Inr j, [ScanLine sourceTag scanId AuditNonZeroParsed])
      | Rejected msg (Unparseable m) \<Rightarrow>
          (Inl (Error ''Failed to parse npm audit output''),
           [ScanLine sourceTag scanId (AuditParseFailed m)]))"

text \<open>
  The two hard failures as the specification names them.
\<close>

definition AuditExecutionFailed :: "string \<Rightarrow> error" where
  "AuditExecutionFailed m = Error (''npm audit failed: '' @ m)"

definition AuditOutputMalformed :: error where
  "AuditOutputMalformed = Error ''Failed to parse npm audit output''"

text \<open>
  Step 4, up to the result:
  \<^verbatim>\<open>const vulns = extractVulnerabilitiesFromAudit(auditJson);
  const severityCounts = buildSeverityCounts(vulns);
  const totalVulnerabilities = severityCounts.critical + severityCounts.high +
    severityCounts.moderate + severityCounts.low;
  const riskScore = computeRiskScore(severityCounts);
  const dependencies = extractDependenciesFromAudit(auditJson);
  const signatures = extractSignaturesFromAudit(auditJson);
  const durationMs = Date.now() - start;
  const result = { projectId: scanId, projectName: projName,
    summary: { totalVulnerabilities, critical: severityCounts.critical, ..., riskScore },
    vulnerabilities: vulns, dependencies, signatures,
    scannedAt: new Date().toISOString(), durationMs };\<close>
\<close>

definition assemble_result ::
  "js_builtins \<Rightarrow> scan_env \<Rightarrow> json \<Rightarrow> json \<Rightarrow> error + ScanResult" where
  "assemble_result js env auditJson projName =
     (case extractVulnerabilitiesFromAudit js auditJson of
        Inl e \<Rightarrow> Inl e
      | Inr vulns \<Rightarrow>
          (case buildSeverityCounts js vulns of
             Inl e \<Rightarrow> Inl e
           | Inr severityCounts \<Rightarrow>
               let total = critical severityCounts + high severityCounts
                           + moderate severityCounts + low severityCounts;
                   risk = computeRiskScore severityCounts
               in (case extractDependenciesFromAudit auditJson of
                     Inl e \<Rightarrow> Inl e
                   | Inr deps \<Rightarrow>
                       (case extractSignaturesFromAudit js auditJson of
                          Inl e \<Rightarrow> Inl e
                        | Inr sigs \<Rightarrow>
                            Inr \<lparr>projectId = uuid env,
                                 projectName = projName,
                                 summary = \<lparr>totalVulnerabilities = total,
                                            s_critical = critical severityCounts,
                                            s_high = high severityCounts,
                                            s_moderate = moderate severityCounts,
                                            s_low = low severityCounts,
                                            riskScore = risk\<rparr>,
                                 vulnerabilities = vulns,
                                 dependencies = deps,
                                 signatures = sigs,
                                 scannedAt = now_iso env,
                                 durationMs = now_end env - now_start env\<rparr>))))"

text \<open>
  \<^verbatim>\<open>async function runScanForProject(packageJson, projName, sourceTag = 'MANUAL') {
    const scanId = uuidv4();
    const start = Date.now();
    console.log(`[${sourceTag} ${scanId}] Starting npm audit scan for ${projName}...`);\<close>
  The template of this first line converts the project name to a string, which raises
  for a name that has no string form, before anything is written. Then the function
  creates the temporary project and writes the manifest (step 1), runs
  \<^verbatim>\<open>npm install --package-lock-only\<close>, whose failure is a warning (step 2), runs the audit
  (step 3), builds the result (step 4), calls \<^verbatim>\<open>saveScanHistory(projName, result)\<close>, and
  ends with step 5:
  \<^verbatim>\<open>try {
    fs.rmSync(projectDir, { recursive: true, force: true });
    console.log(`... Cleaned temp directory`);
  } catch (e) {
    console.warn(`... Cleanup warning (non-fatal): ${e.message}`);
  }
  return result;\<close>
  An exception of the first line, of step 3, of step 4 or of \<^verbatim>\<open>saveScanHistory\<close> leaves
  the function where it is raised. The model returns the result or the exception, the files and the console
  lines.
\<close>

definition runScanForProject ::
  "js_builtins \<Rightarrow> scan_env \<Rightarrow> files \<Rightarrow> json \<Rightarrow> json \<Rightarrow> string
     \<Rightarrow> (error + ScanResult) \<times> files \<times> log_line list" where
  "runScanForProject js env fs packageJson projName sourceTag =
     (case ToString js projName of
        Inl e \<Rightarrow> (Inl e, fs, [])
      | Inr shown \<Rightarrow>
          let scanId = uuid env;
              line = ScanLine sourceTag scanId;
              fs1 = fs\<lparr>tmp := (tmp fs)(scanId \<mapsto> packageJson)\<rparr>;
              log1 = [line (Starting shown), line WrotePackageJson, line RunningInstall]
                     @ (case npm_install env of None \<Rightarrow> [] | Some m \<Rightarrow> [line (InstallWarning m)])
                     @ [line RunningAudit]
          in (case audit_step sourceTag scanId (npm_audit env) of
                (Inl e, l) \<Rightarrow> (Inl e, fs1, log1 @ l)
              | (Inr auditJson, l) \<Rightarrow>
                  (case assemble_result js env auditJson projName of
                     Inl e \<Rightarrow> (Inl e, fs1, log1 @ l)
                   | Inr result \<Rightarrow>
                       (case saveScanHistory fs1 projName result of
                          Inl e \<Rightarrow> (Inl e, fs1, log1 @ l)
                        | Inr fs2 \<Rightarrow>
                            let log2 = log1 @ l
                                  @ [line (ScanComplete (totalVulnerabilities (summary result))
                                             (riskScore (summary result)))]
                            in (case rm_failure env of
                                  None \<Rightarrow>
                                    (Inr result, fs2\<lparr>tmp := (tmp fs2)(scanId := None)\<rparr>,
                                     log2 @ [line CleanedTemp])
                                | Some m \<Rightarrow>
                                    (Inr result, fs2, log2 @ [line (CleanupWarning m)]))))))"

section \<open>Routes and monitoring\<close>

text \<open>
  \<^verbatim>\<open>const monitoredProjects = new Map(); // projectName -> { packageJson }\<close>
  A \<^verbatim>\<open>Map\<close> keeps its entries in insertion order; \<^verbatim>\<open>set\<close> overwrites the entry of a key
  that is present and appends otherwise. Keys are compared by value when they are
  primitive; an array or an object is a key by identity, and the name taken from the
  body of a request is a new object, equal to no key of the map.
\<close>

fun is_primitive :: "json \<Rightarrow> bool" where
  "is_primitive (JArr xs) = False"
| "is_primitive (JObj kvs) = False"
| "is_primitive v = True"

fun Map_set :: "json \<Rightarrow> json \<Rightarrow> (json \<times> json) list \<Rightarrow> (json \<times> json) list" where
  "Map_set k v [] = [(k, v)]"
| "Map_set k v ((k', v') # rest) =
     (if is_primitive k \<and> k' = k then (k, v) # rest else (k', v') # Map_set k v rest)"

record server =
  monitoredProjects :: "(json \<times> json) list"
  disk :: files

datatype response = Ok200 ScanResult | BadRequest400 string | ServerError500 string

fun error_message :: "error \<Rightarrow> string" where
  "error_message (Error m) = m"
| "error_message (TypeError m) = m"

text \<open>
  \<^verbatim>\<open>app.post('/scan', async (req, res) => {
    try {
      const { packageJson, projectName } = req.body;
      if (!packageJson) {
        return res.status(400).json({ error: 'packageJson is required' });
      }
      const projName = projectName || packageJson.name || 'My Project';
      // Remember project for periodic monitoring
      monitoredProjects.set(projName, { packageJson });
      const result = await runScanForProject(packageJson, projName, 'MANUAL');
      res.json(result);
    } catch (err) {
      console.error(`[MANUAL] Scan failed`, err);
      res.status(500).json({ error: err.message || 'Scan failed' });
    }
  });\<close>
  The body is the value the body parser made of the request.
\<close>

definition request_name :: "json \<Rightarrow> json \<Rightarrow> json" where
  "request_name body packageJson =
     js_or (get_prop body ''projectName'')
       (js_or (get_prop packageJson ''name'') (JStr ''My Project''))"

definition post_scan ::
  "js_builtins \<Rightarrow> scan_env \<Rightarrow> server \<Rightarrow> json \<Rightarrow> response \<times> server \<times> log_line list" where
  "post_scan js env st body =
     (if body = JNull
      then (ServerError500 ''Cannot destructure property 'packageJson' of 'req.body' as it is null.'',
            st,
            [ManualScanFailed
               (TypeError ''Cannot destructure property 'packageJson' of 'req.body' as it is null.'')])
      else
        (case get_prop body ''packageJson'' of
           None \<Rightarrow> (BadRequest400 ''packageJson is required'', st, [])
         | Some packageJson \<Rightarrow>
             if \<not> truthy packageJson then (BadRequest400 ''packageJson is required'', st, [])
             else
               let projName = request_name body packageJson;
                   st1 = st\<lparr>monitoredProjects :=
                              Map_set projName packageJson (monitoredProjects st)\<rparr>
               in (case runScanForProject js env (disk st1) packageJson projName ''MANUAL'' of
                     (Inr result, fs', l) \<Rightarrow> (Ok200 result, st1\<lparr>disk := fs'\<rparr>, l)
                   | (Inl e, fs', l) \<Rightarrow>
                       (ServerError500
                          (if error_message e = [] then ''Scan failed'' else error_message e),
                        st1\<lparr>disk := fs'\<rparr>,
                        l @ [ManualScanFailed e]))))"

text \<open>
  \<^verbatim>\<open>app.get('/scans/:projectName', (req, res) => {
    const safeName = safeProjectName(req.params.projectName);
    const filePath = path.join(historyDir, `${safeName}.json`);
    if (!fs.existsSync(filePath)) { return res.json({ scans: [] }); }
    try {
      const content = fs.readFileSync(filePath, 'utf-8');
      const history = JSON.parse(content);
      res.json({ scans: history });
    } catch (e) {
      res.status(500).json({ error: 'Failed to read scan history' });
    }
  });\<close>
  The route parameter is a string.
\<close>

datatype history_response = Scans json | ReadFailed500 | Uncaught error

definition get_scans :: "files \<Rightarrow> string \<Rightarrow> history_response" where
  "get_scans fs name =
     (case safeProjectName (Some (JStr name)) of
        Inl e \<Rightarrow> Uncaught e
      | Inr safeName \<Rightarrow>
          (case history fs (safeName @ ''.json'') of
             None \<Rightarrow> Scans (JArr [])
           | Some NotJSON \<Rightarrow> ReadFailed500
           | Some (JSONText h) \<Rightarrow> Scans h))"

text \<open>
  \<^verbatim>\<open>setInterval(async () => {
    for (const [projName, data] of monitoredProjects.entries()) {
      try {
        await runScanForProject(data.packageJson, projName, 'MONITOR');
      } catch (err) {
        console.warn(`[MONITOR] Failed periodic scan for ${projName}: ${err.message}`);
      }
    }
  }, 5 * 60 * 1000);\<close>
  One tick, with no request arriving while it runs; \<open>envs i\<close> is the environment of the
  \<open>i\<close>-th scan of the tick. The template of the warning converts the project name to a
  string again: for a name that has no string form it raises inside the \<^verbatim>\<open>catch\<close>
  block, and this exception ends the tick, uncaught. The model returns the uncaught
  exception, if any, the files and the console lines.
\<close>

fun monitor_scans ::
  "js_builtins \<Rightarrow> (nat \<Rightarrow> scan_env) \<Rightarrow> nat \<Rightarrow> (json \<times> json) list \<Rightarrow> files
     \<Rightarrow> error option \<times> files \<times> log_line list" where
  "monitor_scans js envs i [] fs = (None, fs, [])"
| "monitor_scans js envs i ((projName, packageJson) # rest) fs =
     (case runScanForProject js (envs i) fs packageJson projName ''MONITOR'' of
        (Inr r, fs', l) \<Rightarrow>
          (case monitor_scans js envs (i + 1) rest fs' of
             (uncaught, fs'', ls) \<Rightarrow> (uncaught, fs'', l @ ls))
      | (Inl e, fs', l) \<Rightarrow>
          (case ToString js projName of
             Inl e' \<Rightarrow> (Some e', fs', l)
           | Inr shown \<Rightarrow>
               (case monitor_scans js envs (i + 1) rest fs' of
                  (uncaught, fs'', ls) \<Rightarrow>
                    (uncaught, fs'', l @ [MonitorFailed shown (error_message e)] @ ls))))"

definition monitor_tick ::
  "js_builtins \<Rightarrow> (nat \<Rightarrow> scan_env) \<Rightarrow> server \<Rightarrow> error option \<times> server \<times> log_line list" where
  "monitor_tick js envs st =
     (case monitor_scans js envs 0 (monitoredProjects st) (disk st) of
        (uncaught, fs', ls) \<Rightarrow> (uncaught, st\<lparr>disk := fs'\<rparr>, ls))"

section \<open>Example values\<close>

text \<open>A backend with no files.\<close>

definition no_files :: files where
  "no_files = \<lparr>tmp = (\<lambda>d. None), history = (\<lambda>f. None)\<rparr>"

text \<open>
  The audit output of the specification's scenario with the record it gives, and a scan
  environment in which the audit exits with a non-zero code and prints that output.
\<close>

definition lodash_audit :: json where
  "lodash_audit =
     JObj [(''vulnerabilities'',
            JObj [(''lodash'',
                   JObj [(''via'',
                          JArr [JObj [(''title'', JStr ''Prototype Pollution''),
                                      (''severity'', JStr ''high''),
                                      (''cvss'', JObj [(''score'', JNum (15/2))])]]),
                         (''fixAvailable'', JBool True)])])]"

definition lodash_record :: Vulnerability where
  "lodash_record =
     \<lparr>v_id = ''lodash-0'', v_name = ''lodash'', v_title = JStr ''Prototype Pollution'',
      v_description = JStr ''Prototype Pollution'', v_severity = JStr ''high'',
      v_cvssScore = JNum (15/2), v_package = ''lodash'', v_fixAvailable = ''yes''\<rparr>"

definition lodash_env :: scan_env where
  "lodash_env =
     \<lparr>uuid = ''scan-1'', now_start = 1000, now_end = 1250,
      now_iso = ''2025-01-01T00:00:00.000Z'', npm_install = None,
      npm_audit = Rejected ''Command failed: npm audit --json --audit-level=low''
                    (Parses lodash_audit),
      rm_failure = None\<rparr>"

text \<open>
  The result of the scan of the project \<^verbatim>\<open>shop\<close> in this environment; two results that
  differ from it in the counts of the signature summary, which are not finite (as for a
  package total that is not numeric); and the history file of this project holding an
  object instead of an array.
\<close>

definition lodash_result :: ScanResult where
  "lodash_result =
     \<lparr>projectId = ''scan-1'', projectName = JStr ''shop'',
      summary = \<lparr>totalVulnerabilities = 1, s_critical = 0, s_high = 1, s_moderate = 0,
                 s_low = 0, riskScore = 75\<rparr>,
      vulnerabilities = [lodash_record],
      dependencies = [\<lparr>d_name = ''lodash'', d_version = ''unknown'', d_type = ''prod'',
                       d_vulnerabilities = 1\<rparr>],
      signatures =
        \<lparr>status = ''none'',
         message = ''Verified via npm registry metadata; Sigstore integration planned as future work.'',
         totalPackages = JNum 0, verifiedCount = Finite 0, unverifiedCount = Finite 0,
         verified = [], unverified = []\<rparr>,
      scannedAt = ''2025-01-01T00:00:00.000Z'', durationMs = 250\<rparr>"




text \<open>
  A request to scan the manifest of a project named \<^verbatim>\<open>shop\<close>, and an environment in
  which the two child processes cannot be started.
\<close>

definition shop_request :: json where
  "shop_request = JObj [(''packageJson'', JObj [(''name'', JStr ''shop'')])]"

definition failing_env :: scan_env where
  "failing_env =
     \<lparr>uuid = ''scan-2'', now_start = 2000, now_end = 2100,
      now_iso = ''2025-01-01T00:05:00.000Z'', npm_install = Some ''spawn npm ENOENT'',
      npm_audit = Rejected ''spawn npm ENOENT'' NoOutput,
      rm_failure = None\<rparr>"

text \<open>
  An audit output whose only issue has the severity \<^verbatim>\<open>info\<close>, one of the levels of the
  audit tool, with the record it gives.
\<close>

definition info_audit :: json where
  "info_audit =
     JObj [(''vulnerabilities'',
            JObj [(''debug'', JObj [(''via'', JArr [JObj [(''severity'', JStr ''info'')]])])])]"

definition info_record :: Vulnerability where
  "info_record =
     \<lparr>v_id = ''debug-0'', v_name = ''debug'', v_title = JStr ''Issue 1 in debug'',
      v_description = JStr ''Issue 1 in debug'', v_severity = JStr ''info'',
      v_cvssScore = JNum 0, v_package = ''debug'', v_fixAvailable = ''no''\<rparr>"

text \<open>
  An audit output whose only issue has a severity without a string form: an object
  with a property named \<^verbatim>\<open>toString\<close>; and the record it gives.
\<close>

definition unprintable_audit :: json where
  "unprintable_audit =
     JObj [(''vulnerabilities'',
            JObj [(''left-pad'',
                   JObj [(''via'', JArr [JObj [(''severity'', JObj [(''toString'', JNum 1)])]])])])]"

definition unprintable_record :: Vulnerability where
  "unprintable_record =
     \<lparr>v_id = ''left-pad-0'', v_name = ''left-pad'', v_title = JStr ''Issue 1 in left-pad'',
      v_description = JStr ''Issue 1 in left-pad'', v_severity = JObj [(''toString'', JNum 1)],
      v_cvssScore = JNum 0, v_package = ''left-pad'', v_fixAvailable = ''no''\<rparr>"

text \<open>
  An audit output that reports a package named \<^verbatim>\<open>__proto__\<close>, with the record it gives.
\<close>

definition proto_audit :: json where
  "proto_audit =
     JObj [(''vulnerabilities'',
            JObj [(''__proto__'', JObj [(''via'', JArr [JObj []])])])]"

definition proto_record :: Vulnerability where
  "proto_record =
     \<lparr>v_id = ''__proto__-0'', v_name = ''__proto__'', v_title = JStr ''Issue 1 in __proto__'',
      v_description = JStr ''Issue 1 in __proto__'', v_severity = JStr ''low'',
      v_cvssScore = JNum 0, v_package = ''__proto__'', v_fixAvailable = ''no''\<rparr>"


section \<open>Binary64 rounding\<close>

text \<open>
  The exponent found by \<open>ilog2\<close> is the one of the binade, so inside a binade \<open>fl64\<close>
  rounds to a multiple of the spacing \<open>2 powi (e - 52)\<close>: it moves its argument by at
  most half the spacing and never across a multiple of the spacing.
\<close>

lemma two_powi_pos: "0 < (2::rat) powi e"
  by (simp add: zero_less_power_int)

lemma two_powi_mono: "a \<le> b \<Longrightarrow> (2::rat) powi a \<le> 2 powi b"
  by (simp add: power_int_increasing)

lemma two_powi_less_cancel: "(2::rat) powi a < 2 powi b \<Longrightarrow> a < b"
  using two_powi_mono [of b a] by (cases "a < b") auto

lemma int_pow_bounds:
  assumes "2 ^ a \<le> (p::int)" and "p < 2 ^ b"
  shows "(2::rat) ^ a \<le> of_int p" and "of_int p < (2::rat) ^ b"
proof -
  have "(of_int (2 ^ a) :: rat) \<le> of_int p" using assms(1) by (simp only: of_int_le_iff)
  then show "(2::rat) ^ a \<le> of_int p" by simp
  have "(of_int p :: rat) < of_int (2 ^ b)" using assms(2) by (simp only: of_int_less_iff)
  then show "of_int p < (2::rat) ^ b" by simp
qed

lemma two_powi_le_pos: "(2::rat) powi e \<le> x \<Longrightarrow> 0 < x"
  using two_powi_pos [of e] by (rule less_le_trans)

lemma ilog2_bounds:
  assumes "0 < x"
  shows "2 powi (ilog2 x) \<le> x \<and> x < 2 powi (ilog2 x + 1)"
proof -
  obtain p q where pq: "quotient_of x = (p, q)"
    by (cases "quotient_of x")
  have q: "0 < q" using pq by (rule quotient_of_denom_pos)
  have x: "x = of_int p / of_int q" using pq by (rule quotient_of_div)
  have p: "0 < p" using assms q x by (simp add: zero_less_divide_iff)
  define bp bq where "bp = bitlen p" and "bq = bitlen q"
  have bp: "1 \<le> bp" and bq: "1 \<le> bq"
    using p q by (simp_all add: bp_def bq_def bitlen_alt_def)
  have pb: "2 ^ nat (bp - 1) \<le> p" "p < 2 ^ nat bp"
    using bitlen_bounds [OF p] by (simp_all add: bp_def)
  have qb: "2 ^ nat (bq - 1) \<le> q" "q < 2 ^ nat bq"
    using bitlen_bounds [OF q] by (simp_all add: bq_def)
  have pr: "(2::rat) powi (bp - 1) \<le> of_int p" "of_int p < (2::rat) powi bp"
    using int_pow_bounds [OF pb] bp by (simp_all add: power_int_nonneg_exp)
  have qr: "(2::rat) powi (bq - 1) \<le> of_int q" "of_int q < (2::rat) powi bq"
    using int_pow_bounds [OF qb] bq by (simp_all add: power_int_nonneg_exp)
  have qpos: "(0::rat) < of_int q" using q by simp
  have up: "x < 2 powi (bp - bq + 1)"
  proof -
    have "of_int p < (2::rat) powi bp" by (rule pr)
    also have "\<dots> = 2 powi (bp - bq + 1) * 2 powi (bq - 1)"
      by (simp flip: power_int_add)
    also have "\<dots> \<le> 2 powi (bp - bq + 1) * of_int q"
      using qr(1) two_powi_pos [of "bp - bq + 1"] by simp
    finally show ?thesis using qpos by (simp add: x pos_divide_less_eq)
  qed
  have lo: "2 powi (bp - bq - 1) < x"
  proof -
    have "2 powi (bp - bq - 1) * of_int q < 2 powi (bp - bq - 1) * (2::rat) powi bq"
      using qr(2) two_powi_pos [of "bp - bq - 1"] by simp
    also have "\<dots> = 2 powi (bp - 1)"
      by (simp flip: power_int_add)
    also have "\<dots> \<le> of_int p" by (rule pr)
    finally show ?thesis using qpos by (simp add: x pos_less_divide_eq)
  qed
  show ?thesis
    using up lo by (simp add: ilog2_def pq Let_def bp_def bq_def)
qed

lemma ilog2_unique:
  assumes "2 powi e \<le> x" and "x < 2 powi (e + 1)"
  shows "ilog2 x = e"
proof -
  have pos: "0 < x" using assms(1) by (rule two_powi_le_pos)
  have b: "2 powi (ilog2 x) \<le> x" "x < 2 powi (ilog2 x + 1)"
    using ilog2_bounds [OF pos] by simp_all
  have "(2::rat) powi e < 2 powi (ilog2 x + 1)" using assms(1) b(2) by simp
  then have 1: "e < ilog2 x + 1" by (rule two_powi_less_cancel)
  have "(2::rat) powi (ilog2 x) < 2 powi (e + 1)" using assms(2) b(1) by simp
  then have 2: "ilog2 x < e + 1" by (rule two_powi_less_cancel)
  show ?thesis using 1 2 by simp
qed

lemma rne_of_int: "rne (of_int n) = n"
  by (simp add: rne_def)

lemma rne_near: "\<bar>of_int (rne y) - y\<bar> \<le> 1/2"
proof -
  have "of_int \<lfloor>y\<rfloor> \<le> y" "y < of_int \<lfloor>y\<rfloor> + 1" by linarith+
  then show ?thesis by (auto simp: rne_def Let_def)
qed

lemma rne_ge: "of_int n \<le> y \<Longrightarrow> n \<le> rne y"
proof -
  assume "of_int n \<le> y"
  then have "n \<le> \<lfloor>y\<rfloor>" by (simp add: le_floor_iff)
  then show ?thesis by (auto simp: rne_def Let_def)
qed

lemma rne_le: "y \<le> of_int n \<Longrightarrow> rne y \<le> n"
proof -
  assume a: "y \<le> of_int n"
  show ?thesis
  proof (cases "y = of_int n")
    case True
    then show ?thesis by (simp add: rne_of_int)
  next
    case False
    with a have "y < of_int n" by simp
    then have "\<lfloor>y\<rfloor> < n" by (simp add: floor_less_iff)
    then show ?thesis by (auto simp: rne_def Let_def)
  qed
qed

lemma fl64_binade:
  assumes "2 powi e \<le> x" and "x < 2 powi (e + 1)" and "- 1022 \<le> e"
  shows "fl64 x = of_int (rne (x / 2 powi (e - 52))) * 2 powi (e - 52)"
proof -
  have pos: "0 < x" using assms(1) by (rule two_powi_le_pos)
  have "ilog2 x = e" using assms(1,2) by (rule ilog2_unique)
  then show ?thesis using pos assms(3) by (simp add: fl64_def Let_def max_def)
qed

lemma fl64_error:
  assumes "2 powi e \<le> x" and "x < 2 powi (e + 1)" and "- 1022 \<le> e"
  shows "\<bar>fl64 x - x\<bar> \<le> 2 powi (e - 53)"
proof -
  define u :: rat where "u = 2 powi (e - 52)"
  have u: "0 < u" by (simp add: u_def two_powi_pos)
  have half: "u / 2 = 2 powi (e - 53)"
    by (simp add: u_def power_int_diff)
  have "fl64 x - x = (of_int (rne (x / u)) - x / u) * u"
    using u by (simp add: fl64_binade [OF assms] u_def [symmetric] algebra_simps)
  then have "\<bar>fl64 x - x\<bar> = \<bar>of_int (rne (x / u)) - x / u\<bar> * u"
    using u by (simp add: abs_mult)
  also have "\<dots> \<le> 1/2 * u"
    using rne_near [of "x / u"] u by (intro mult_right_mono) simp_all
  finally show ?thesis using half by simp
qed

lemma fl64_lower:
  assumes "2 powi e \<le> x" and "x < 2 powi (e + 1)" and "- 1022 \<le> e"
    and "of_int n * 2 powi (e - 52) \<le> x"
  shows "of_int n * 2 powi (e - 52) \<le> fl64 x"
proof -
  define u :: rat where "u = 2 powi (e - 52)"
  have u: "0 < u" by (simp add: u_def two_powi_pos)
  have "of_int n \<le> x / u" using assms(4) u by (simp add: u_def [symmetric] pos_le_divide_eq)
  then have "n \<le> rne (x / u)" by (rule rne_ge)
  then have "of_int n * u \<le> of_int (rne (x / u)) * u"
    using u by simp
  then show ?thesis by (simp add: fl64_binade [OF assms(1,2,3)] u_def [symmetric])
qed

lemma fl64_upper:
  assumes "2 powi e \<le> x" and "x < 2 powi (e + 1)" and "- 1022 \<le> e"
    and "x \<le> of_int n * 2 powi (e - 52)"
  shows "fl64 x \<le> of_int n * 2 powi (e - 52)"
proof -
  define u :: rat where "u = 2 powi (e - 52)"
  have u: "0 < u" by (simp add: u_def two_powi_pos)
  have "x / u \<le> of_int n" using assms(4) u by (simp add: u_def [symmetric] pos_divide_le_eq)
  then have "rne (x / u) \<le> n" by (rule rne_le)
  then have "of_int (rne (x / u)) * u \<le> of_int n * u"
    using u by simp
  then show ?thesis by (simp add: fl64_binade [OF assms(1,2,3)] u_def [symmetric])
qed

section \<open>The risk score\<close>

text \<open>
  The quotient \<open>weighted / (total * 4)\<close> lies between 1/4 and 1 and its product by 100
  between 25 and 100; both roundings stay inside these bounds, which are binary64
  numbers, and together they move the value by less than \<open>2 powi (- 46)\<close>.
\<close>

lemma fl64_quotient:
  assumes "1/4 \<le> x" and "x \<le> 1"
  shows "1/4 \<le> fl64 x \<and> fl64 x \<le> 1 \<and> \<bar>fl64 x - x\<bar> \<le> 2 powi (- 54)"
proof -
  consider "x < 1/2" | "1/2 \<le> x" "x < 1" | "x = 1" using assms by linarith
  then show ?thesis
  proof cases
    case 1
    have b: "2 powi (- 2) \<le> x" "x < 2 powi (- 2 + 1)" "- 1022 \<le> (- 2 :: int)"
      using assms 1 by (simp_all add: power_int_minus)
    have lo: "of_int 4503599627370496 * 2 powi (- 2 - 52) \<le> fl64 x"
      using b assms by (intro fl64_lower) (simp_all add: power_int_minus)
    have up: "fl64 x \<le> of_int 9007199254740992 * 2 powi (- 2 - 52)"
      using b 1 by (intro fl64_upper) (simp_all add: power_int_minus)
    have er: "\<bar>fl64 x - x\<bar> \<le> 2 powi (- 2 - 53)"
      using b by (rule fl64_error)
    show ?thesis using lo up er by (simp add: power_int_minus)
  next
    case 2
    have b: "2 powi (- 1) \<le> x" "x < 2 powi (- 1 + 1)" "- 1022 \<le> (- 1 :: int)"
      using 2 by (simp_all add: power_int_minus)
    have lo: "of_int 4503599627370496 * 2 powi (- 1 - 52) \<le> fl64 x"
      using b 2 by (intro fl64_lower) (simp_all add: power_int_minus)
    have up: "fl64 x \<le> of_int 9007199254740992 * 2 powi (- 1 - 52)"
      using b 2 by (intro fl64_upper) (simp_all add: power_int_minus)
    have er: "\<bar>fl64 x - x\<bar> \<le> 2 powi (- 1 - 53)"
      using b by (rule fl64_error)
    show ?thesis using lo up er by (simp add: power_int_minus)
  next
    case 3
    have b: "2 powi 0 \<le> x" "x < 2 powi (0 + 1)" "- 1022 \<le> (0 :: int)"
      using 3 by simp_all
    have "fl64 x = of_int (rne (of_int 4503599627370496)) * 2 powi (0 - 52)"
      using fl64_binade [OF b] 3 by (simp add: power_int_minus)
    then have "fl64 x = 1" by (simp only: rne_of_int) (simp add: power_int_minus)
    then show ?thesis using 3 by simp
  qed
qed

lemma fl64_percent:
  assumes "25 \<le> p" and "p \<le> 100"
  shows "25 \<le> fl64 p \<and> fl64 p \<le> 100 \<and> \<bar>fl64 p - p\<bar> \<le> 2 powi (- 47)"
proof -
  consider "p < 32" | "32 \<le> p" "p < 64" | "64 \<le> p" using assms by linarith
  then show ?thesis
  proof cases
    case 1
    have b: "2 powi 4 \<le> p" "p < 2 powi (4 + 1)" "- 1022 \<le> (4 :: int)"
      using assms 1 by simp_all
    have lo: "of_int 7036874417766400 * 2 powi (4 - 52) \<le> fl64 p"
      using b assms by (intro fl64_lower) (simp_all add: power_int_minus)
    have up: "fl64 p \<le> of_int 9007199254740992 * 2 powi (4 - 52)"
      using b 1 by (intro fl64_upper) (simp_all add: power_int_minus)
    have er: "\<bar>fl64 p - p\<bar> \<le> 2 powi (4 - 53)"
      using b by (rule fl64_error)
    show ?thesis using lo up er by (simp add: power_int_minus)
  next
    case 2
    have b: "2 powi 5 \<le> p" "p < 2 powi (5 + 1)" "- 1022 \<le> (5 :: int)"
      using 2 by simp_all
    have lo: "of_int 4503599627370496 * 2 powi (5 - 52) \<le> fl64 p"
      using b 2 by (intro fl64_lower) (simp_all add: power_int_minus)
    have up: "fl64 p \<le> of_int 9007199254740992 * 2 powi (5 - 52)"
      using b 2 by (intro fl64_upper) (simp_all add: power_int_minus)
    have er: "\<bar>fl64 p - p\<bar> \<le> 2 powi (5 - 53)"
      using b by (rule fl64_error)
    show ?thesis using lo up er by (simp add: power_int_minus)
  next
    case 3
    have b: "2 powi 6 \<le> p" "p < 2 powi (6 + 1)" "- 1022 \<le> (6 :: int)"
      using assms 3 by simp_all
    have lo: "of_int 4503599627370496 * 2 powi (6 - 52) \<le> fl64 p"
      using b 3 by (intro fl64_lower) (simp_all add: power_int_minus)
    have up: "fl64 p \<le> of_int 7036874417766400 * 2 powi (6 - 52)"
      using b assms by (intro fl64_upper) (simp_all add: power_int_minus)
    have er: "\<bar>fl64 p - p\<bar> \<le> 2 powi (6 - 53)"
      using b by (rule fl64_error)
    show ?thesis using lo up er by (simp add: power_int_minus)
  qed
qed


lemma floor_close_nonint:
  fixes a b :: rat and r :: int
  assumes "of_int r + d \<le> b" and "b \<le> of_int r + 1 - d" and "\<bar>a - b\<bar> < d"
  shows "\<lfloor>a\<rfloor> = r"
proof -
  have "of_int r \<le> a" "a < of_int r + 1" using assms by linarith+
  then show ?thesis by (simp add: floor_unique)
qed

lemma floor_close_int:
  fixes a :: rat and r :: int
  assumes "\<bar>a - of_int r\<bar> < 1"
  shows "\<lfloor>a\<rfloor> = r \<or> \<lfloor>a\<rfloor> = r - 1"
proof (cases "of_int r \<le> a")
  case True
  then have "\<lfloor>a\<rfloor> = r" using assms by (intro floor_unique) linarith+
  then show ?thesis by simp
next
  case False
  then have "\<lfloor>a\<rfloor> = r - 1" using assms by (intro floor_unique) (simp, linarith)+
  then show ?thesis by simp
qed

text \<open>The position of a fraction between two integers, when its denominator is known.\<close>

lemma fraction_gap:
  fixes N D r :: int
  assumes D: "0 < D" and r: "r = \<lfloor>(of_int N / of_int D :: rat)\<rfloor>"
  shows "of_int N / of_int D = (of_int r :: rat)
         \<or> (of_int r + 1 / of_int D \<le> (of_int N / of_int D :: rat)
            \<and> (of_int N / of_int D :: rat) \<le> of_int r + 1 - 1 / of_int D)"
proof -
  have Dr: "(0::rat) < of_int D" using D by simp
  have r': "r = N div D" using r by (simp add: floor_divide_of_int_eq)
  have N: "N = r * D + N mod D" by (simp add: r')
  have m: "0 \<le> N mod D" "N mod D < D" using D by simp_all
  show ?thesis
  proof (cases "N mod D = 0")
    case True
    then have "N = r * D" using N by simp
    then have "(of_int N / of_int D :: rat) = of_int r" using Dr by simp
    then show ?thesis by simp
  next
    case False
    then have lo: "r * D + 1 \<le> N" and up: "N + 1 \<le> (r + 1) * D"
      using N m by (simp_all add: algebra_simps)
    have "(of_int (r * D + 1) :: rat) \<le> of_int N" using lo by (simp only: of_int_le_iff)
    then have "(of_int (r * D + 1) :: rat) / of_int D \<le> of_int N / of_int D"
      using Dr by (intro divide_right_mono) simp_all
    moreover have "(of_int (r * D + 1) :: rat) / of_int D = of_int r + 1 / of_int D"
      using Dr by (simp add: add_divide_distrib)
    ultimately have 1: "of_int r + 1 / of_int D \<le> (of_int N / of_int D :: rat)"
      by simp
    have "(of_int (N + 1) :: rat) \<le> of_int ((r + 1) * D)" using up by (simp only: of_int_le_iff)
    then have "(of_int (N + 1) :: rat) / of_int D \<le> of_int ((r + 1) * D) / of_int D"
      using Dr by (intro divide_right_mono) simp_all
    moreover have "(of_int (N + 1) :: rat) / of_int D = of_int N / of_int D + 1 / of_int D"
      by (simp add: add_divide_distrib)
    moreover have "(of_int ((r + 1) * D) :: rat) / of_int D = of_int r + 1"
      using Dr by simp
    ultimately have 2: "(of_int N / of_int D :: rat) \<le> of_int r + 1 - 1 / of_int D"
      by simp
    show ?thesis using 1 2 by simp
  qed
qed


lemma computeRiskScore_float:
  assumes t: "0 < critical counts + high counts + moderate counts + low counts"
  shows "\<exists>z. computeRiskScore counts = \<lfloor>z + 1/2\<rfloor> \<and> 25 \<le> z \<and> z \<le> 100
             \<and> \<bar>z - exact_ratio counts\<bar> < 2 powi (- 46)"
proof -
  define tn where "tn = critical counts + high counts + moderate counts + low counts"
  define wn where "wn = critical counts * 4 + high counts * 3 + moderate counts * 2 + low counts * 1"
  define x :: rat where "x = of_nat wn / of_nat (tn * 4)"
  define y where "y = fl64 x"
  define z where "z = fl64 (y * 100)"
  have tpos: "0 < tn" using t by (simp add: tn_def)
  have wt: "tn \<le> wn" "wn \<le> 4 * tn" by (simp_all add: tn_def wn_def)
  have tr: "(0::rat) < of_nat (tn * 4)" using tpos by simp
  have "(of_nat tn :: rat) \<le> of_nat wn" "(of_nat wn :: rat) \<le> of_nat (4 * tn)"
    using wt by (simp_all only: of_nat_le_iff)
  then have x: "1/4 \<le> x" "x \<le> 1"
    using tr by (simp_all add: x_def pos_le_divide_eq pos_divide_le_eq)
  have y: "1/4 \<le> y" "y \<le> 1" "\<bar>y - x\<bar> \<le> 2 powi (- 54)"
    using fl64_quotient [OF x] by (simp_all add: y_def)
  have p: "25 \<le> y * 100" "y * 100 \<le> 100" using y(1,2) by simp_all
  have z: "25 \<le> z" "z \<le> 100" "\<bar>z - y * 100\<bar> \<le> 2 powi (- 47)"
    using fl64_percent [OF p] by (simp_all add: z_def)
  have ex: "exact_ratio counts = 100 * x"
    by (simp add: exact_ratio_def x_def wn_def tn_def algebra_simps)
  have "z - 100 * x = (z - y * 100) + 100 * (y - x)" by simp
  then have "\<bar>z - 100 * x\<bar> \<le> \<bar>z - y * 100\<bar> + \<bar>100 * (y - x)\<bar>"
    by (simp only: abs_triangle_ineq)
  also have "\<dots> = \<bar>z - y * 100\<bar> + 100 * \<bar>y - x\<bar>" by (simp only: abs_mult abs_numeral)
  finally have "\<bar>z - 100 * x\<bar> \<le> \<bar>z - y * 100\<bar> + 100 * \<bar>y - x\<bar>" .
  also have "\<dots> \<le> 2 powi (- 47) + 100 * 2 powi (- 54)"
    using y(3) z(3) by (intro add_mono mult_left_mono) simp_all
  also have "\<dots> < (2::rat) powi (- 46)" by (simp add: power_int_minus)
  finally have close: "\<bar>z - exact_ratio counts\<bar> < 2 powi (- 46)" by (simp add: ex)
  have "tn \<noteq> 0" using tpos by simp
  then have "computeRiskScore counts = \<lfloor>z + 1/2\<rfloor>"
    unfolding computeRiskScore_def Let_def Math_round_def fmul_def fdiv_def
      z_def y_def x_def tn_def wn_def
    by (simp only: if_False)
  then show ?thesis using z(1,2) close by blast
qed

lemma computeRiskScore_zero:
  "critical counts + high counts + moderate counts + low counts = 0 \<Longrightarrow> computeRiskScore counts = 0"
  by (simp add: computeRiskScore_def)

lemma computeRiskScore_range: "0 \<le> computeRiskScore counts \<and> computeRiskScore counts \<le> 100"
proof (cases "critical counts + high counts + moderate counts + low counts = 0")
  case True
  then show ?thesis by (simp add: computeRiskScore_zero)
next
  case False
  then obtain z :: rat
    where z: "computeRiskScore counts = \<lfloor>z + 1/2\<rfloor>" "25 \<le> z" "z \<le> 100"
    using computeRiskScore_float [of counts] by auto
  have "25 \<le> \<lfloor>z + 1/2\<rfloor>" using z(2) by (simp add: le_floor_iff)
  moreover have "\<lfloor>z + 1/2\<rfloor> \<le> 100"
  proof -
    have "z + 1/2 < of_int 101" using z(3) by simp
    then have "\<lfloor>z + 1/2\<rfloor> < 101" by (simp only: floor_less_iff)
    then show ?thesis by simp
  qed
  ultimately show ?thesis using z(1) by simp
qed

lemma computeRiskScore_near_exact:
  assumes t: "0 < critical counts + high counts + moderate counts + low counts"
    and small: "critical counts + high counts + moderate counts + low counts \<le> 2 ^ 45"
  shows "computeRiskScore counts = spec_score counts
         \<or> (computeRiskScore counts = spec_score counts - 1
            \<and> exact_ratio counts + 1/2 = of_int (spec_score counts))"
proof -
  define tn where "tn = critical counts + high counts + moderate counts + low counts"
  define wn where "wn = 4 * critical counts + 3 * high counts + 2 * moderate counts + 1 * low counts"
  define N :: int where "N = int (50 * wn + tn)"
  define D :: int where "D = int (2 * tn)"
  define r where "r = spec_score counts"
  obtain z :: rat where z: "computeRiskScore counts = \<lfloor>z + 1/2\<rfloor>"
      "\<bar>z - exact_ratio counts\<bar> < 2 powi (- 46)"
    using computeRiskScore_float [OF t] by auto
  have tpos: "0 < tn" using t by (simp add: tn_def)
  have D: "0 < D" using tpos by (simp add: D_def)
  have er: "exact_ratio counts = 100 * of_nat wn / of_nat (tn * 4)"
    by (simp only: exact_ratio_def wn_def tn_def)
  have tr: "(0::rat) < of_nat tn" using tpos by simp
  have b: "exact_ratio counts + 1/2 = (of_int N / of_int D :: rat)"
    using tr by (simp add: er N_def D_def field_simps)
  have "tn \<noteq> 0" using tpos by simp
  then have "spec_score counts = round (exact_ratio counts)"
    unfolding spec_score_def tn_def by (simp only: if_False)
  then have r: "r = \<lfloor>(of_int N / of_int D :: rat)\<rfloor>"
    by (simp add: r_def round_def flip: b)
  have "tn \<le> 2 ^ 45" using small by (simp only: tn_def)
  then have "int tn \<le> int (2 ^ 45)" by (simp only: of_nat_le_iff)
  then have "D \<le> 2 ^ 46" by (simp add: D_def)
  then have "(of_int D :: rat) \<le> of_int (2 ^ 46)" by (simp only: of_int_le_iff)
  then have Dle: "(of_int D :: rat) \<le> 2 ^ 46" by simp
  have Dr: "(0::rat) < of_int D" using D by simp
  have gap: "(2::rat) powi (- 46) \<le> 1 / of_int D"
    using Dle Dr by (simp add: power_int_minus field_simps)
  have close: "\<bar>(z + 1/2) - (exact_ratio counts + 1/2)\<bar> < 2 powi (- 46)"
    using z(2) by simp
  from fraction_gap [OF D r] show ?thesis
  proof
    assume eq: "(of_int N / of_int D :: rat) = of_int r"
    have "\<bar>(z + 1/2) - of_int r\<bar> < 1"
    proof -
      have "(2::rat) powi (- 46) \<le> 1" by (simp add: power_int_minus)
      then show ?thesis using close by (simp add: b eq)
    qed
    then have "\<lfloor>z + 1/2\<rfloor> = r \<or> \<lfloor>z + 1/2\<rfloor> = r - 1" by (rule floor_close_int)
    then show ?thesis using z(1) by (auto simp: r_def [symmetric] b eq)
  next
    assume "of_int r + 1 / of_int D \<le> (of_int N / of_int D :: rat)
            \<and> (of_int N / of_int D :: rat) \<le> of_int r + 1 - 1 / of_int D"
    then have lo: "of_int r + 1 / of_int D \<le> exact_ratio counts + 1/2"
      and up: "exact_ratio counts + 1/2 \<le> of_int r + 1 - 1 / of_int D"
      by (simp_all add: b)
    have "\<bar>(z + 1/2) - (exact_ratio counts + 1/2)\<bar> < 1 / of_int D"
      using close gap by linarith
    with lo up have "\<lfloor>z + 1/2\<rfloor> = r" by (rule floor_close_nonint)
    then show ?thesis using z(1) by (simp add: r_def)
  qed
qed

text \<open>
  Claim C3, as the code has it. Take severity counts with a total of at most \<open>2 ^ 45\<close>.
  If the total is 0 the score is 0. Otherwise the score is \<^verbatim>\<open>Math.round\<close> of the
  binary64 value of \<^verbatim>\<open>(weighted / (total * 4)) * 100\<close>; it equals the exact
  \<open>100 \<times> weighted / (total \<times> 4)\<close> rounded half up, except that where this exact value
  lies just halfway between two integers the binary64 value can fall below the half,
  and the score is then one less. In all cases the score lies between 0 and 100; one
  critical vulnerability alone scores 100 and one low vulnerability alone scores 25.
\<close>

theorem computeRiskScore_binary64:
  assumes "critical counts + high counts + moderate counts + low counts \<le> 2 ^ 45"
  shows "(critical counts + high counts + moderate counts + low counts = 0
            \<longrightarrow> computeRiskScore counts = 0)
         \<and> (computeRiskScore counts = spec_score counts
              \<or> (computeRiskScore counts = spec_score counts - 1
                 \<and> exact_ratio counts + 1/2 = of_int (spec_score counts)))
         \<and> 0 \<le> computeRiskScore counts \<and> computeRiskScore counts \<le> 100
         \<and> computeRiskScore \<lparr>critical = 1, high = 0, moderate = 0, low = 0\<rparr> = 100
         \<and> computeRiskScore \<lparr>critical = 0, high = 0, moderate = 0, low = 1\<rparr> = 25"
proof -
  have zero: "critical counts + high counts + moderate counts + low counts = 0
      \<longrightarrow> computeRiskScore counts = 0"
    by (simp add: computeRiskScore_zero)
  have near: "computeRiskScore counts = spec_score counts
      \<or> (computeRiskScore counts = spec_score counts - 1
         \<and> exact_ratio counts + 1/2 = of_int (spec_score counts))"
  proof (cases "critical counts + high counts + moderate counts + low counts = 0")
    case True
    then show ?thesis by (simp add: computeRiskScore_zero spec_score_def)
  next
    case False
    then have "0 < critical counts + high counts + moderate counts + low counts" by simp
    then show ?thesis using assms by (rule computeRiskScore_near_exact)
  qed
  have one_critical: "computeRiskScore \<lparr>critical = 1, high = 0, moderate = 0, low = 0\<rparr> = 100"
    by code_simp
  have one_low: "computeRiskScore \<lparr>critical = 0, high = 0, moderate = 0, low = 1\<rparr> = 25"
    by code_simp
  show ?thesis
    using zero near computeRiskScore_range [of counts] one_critical one_low by blast
qed

theorem computeRiskScore_binary64_witness:
  "computeRiskScore \<lparr>critical = 0, high = 1, moderate = 0, low = 0\<rparr> = 75
   \<and> spec_score \<lparr>critical = 0, high = 1, moderate = 0, low = 0\<rparr> = 75"
proof -
  have small: "critical \<lparr>critical = 0, high = 1, moderate = 0, low = 0\<rparr>
      + high \<lparr>critical = 0, high = 1, moderate = 0, low = 0\<rparr>
      + moderate \<lparr>critical = 0, high = 1, moderate = 0, low = 0\<rparr>
      + low \<lparr>critical = 0, high = 1, moderate = 0, low = 0\<rparr> \<le> 2 ^ 45"
    by simp
  have spec: "spec_score \<lparr>critical = 0, high = 1, moderate = 0, low = 0\<rparr> = 75"
    by code_simp
  have exact: "exact_ratio \<lparr>critical = 0, high = 1, moderate = 0, low = 0\<rparr> = 75"
    by (simp add: exact_ratio_def)
  show ?thesis
    using computeRiskScore_binary64 [OF small] spec exact by simp
qed

text \<open>
  Four critical, one moderate and five low vulnerabilities: the exact value is 57.5,
  which rounds half up to 58; the binary64 quotient 23/40 times 100 is
  57.49999999999999, and the code returns 57.
\<close>

theorem computeRiskScore_not_half_up:
  "computeRiskScore \<lparr>critical = 4, high = 0, moderate = 1, low = 5\<rparr> = 57
   \<and> spec_score \<lparr>critical = 4, high = 0, moderate = 1, low = 5\<rparr> = 58
   \<and> computeRiskScore \<lparr>critical = 4, high = 0, moderate = 1, low = 5\<rparr>
       \<noteq> spec_score \<lparr>critical = 4, high = 0, moderate = 1, low = 5\<rparr>"
  by code_simp

section \<open>Severity counts\<close>

lemma normalizeSeverity_canonical:
  assumes "normalizeSeverity js raw = Inr sev"
  shows "sev = ''critical'' \<or> sev = ''high'' \<or> sev = ''moderate'' \<or> sev = ''low''"
  using assms
  by (auto simp: normalizeSeverity_def Let_def split: option.splits sum.splits if_splits)




text \<open>
  The counts exist when every severity has a string form; a severity without one makes
  \<^verbatim>\<open>String(raw)\<close> raise, and with it the scan.
\<close>

lemma buildSeverityCounts_raises:
  assumes "v \<in> set vulns" and "normalizeSeverity js (Some (v_severity v)) = Inl e"
  shows "\<exists>e'. buildSeverityCounts js vulns = Inl e'"
proof -
  have "\<exists>e'. count_loop js vulns c = Inl e'" for c
    using assms(1)
  proof (induction vulns arbitrary: c)
    case Nil
    then show ?case by simp
  next
    case (Cons w ws)
    show ?case
    proof (cases "normalizeSeverity js (Some (v_severity w))")
      case (Inl a)
      then show ?thesis by simp
    next
      case (Inr sev)
      then have "w \<noteq> v" using assms(2) by auto
      then have "v \<in> set ws" using Cons.prems by simp
      then show ?thesis using Cons.IH Inr by simp
    qed
  qed
  then show ?thesis by (simp add: buildSeverityCounts_def)
qed


lemma unprintable_severity_raises:
  "extractVulnerabilitiesFromAudit js unprintable_audit = Inr [unprintable_record]
   \<and> buildSeverityCounts js [unprintable_record]
       = Inl (TypeError ''Cannot convert object to primitive value'')
   \<and> assemble_result js env unprintable_audit projName
       = Inl (TypeError ''Cannot convert object to primitive value'')"
proof -
  have records: "extractVulnerabilitiesFromAudit js unprintable_audit = Inr [unprintable_record]"
    by code_simp
  have counts: "buildSeverityCounts js [unprintable_record]
       = Inl (TypeError ''Cannot convert object to primitive value'')"
    by code_simp
  show ?thesis
    by (simp add: records counts assemble_result_def)
qed






lemma lodash_assembled:
  "assemble_result js lodash_env lodash_audit (JStr ''shop'') = Inr lodash_result"
  by code_simp

lemma lodash_scan:
  "fst (runScanForProject js lodash_env no_files (JObj []) (JStr ''shop'') sourceTag)
   = Inr lodash_result"
proof -
  have audit: "audit_step sourceTag (uuid lodash_env) (npm_audit lodash_env)
      = (Inr lodash_audit, [ScanLine sourceTag (uuid lodash_env) AuditNonZeroParsed])"
    by (simp add: audit_step_def lodash_env_def)
  have key: "safeProjectName (Some (JStr ''shop'')) = Inr ''shop''"
    by (simp add: safeProjectName_def replace_unsafe_def safe_char_def)
  show ?thesis
    by (simp add: runScanForProject_def audit lodash_assembled saveScanHistory_def key
        no_files_def Let_def split: option.split)
qed



section \<open>The project key and the history\<close>

lemma replace_unsafe_safe: "list_all safe_char (replace_unsafe s)"
  by (induction s) (simp_all add: replace_unsafe_def safe_char_def)

lemma replace_unsafe_fixed: "list_all safe_char s \<Longrightarrow> replace_unsafe s = s"
  by (induction s) (simp_all add: replace_unsafe_def)

lemma replace_unsafe_idem: "replace_unsafe (replace_unsafe s) = replace_unsafe s"
  by (rule replace_unsafe_fixed) (rule replace_unsafe_safe)

lemma safeProjectName_string:
  "safeProjectName (Some (JStr s)) =
     Inr (replace_unsafe (if s = [] then ''My Project'' else s))"
  by (simp add: safeProjectName_def)

lemma safeProjectName_Inr:
  assumes "safeProjectName name = Inr k"
  shows "\<exists>s. js_or name (JStr ''My Project'') = JStr s \<and> s \<noteq> [] \<and> k = replace_unsafe s"
proof (cases "js_or name (JStr ''My Project'')")
  case (JStr s)
  have "truthy (js_or name (JStr ''My Project''))"
    by (cases name) simp_all
  then have "s \<noteq> []" by (simp add: JStr)
  then show ?thesis using assms by (simp add: safeProjectName_def JStr)
qed (use assms in \<open>simp_all add: safeProjectName_def\<close>)

lemma safeProjectName_again:
  assumes "safeProjectName name = Inr k"
  shows "safeProjectName (Some (JStr k)) = Inr k"
proof -
  obtain s where s: "s \<noteq> []" "k = replace_unsafe s"
    using safeProjectName_Inr [OF assms] by blast
  then have "k \<noteq> []" by (simp add: replace_unsafe_def)
  then show ?thesis by (simp add: safeProjectName_string s(2) replace_unsafe_idem)
qed

lemma safeProjectName_falsy:
  assumes "\<not> truthy_opt name"
  shows "safeProjectName name = Inr ''My_Project''"
proof -
  have "js_or name (JStr ''My Project'') = JStr ''My Project''"
    using assms by (cases name) simp_all
  then show ?thesis by (simp add: safeProjectName_def replace_unsafe_def safe_char_def)
qed

lemma safeProjectName_not_string:
  assumes "truthy_opt name" and "\<forall>s. name \<noteq> Some (JStr s)"
  shows "safeProjectName name = Inl (TypeError ''(name || \"My Project\").replace is not a function'')"
proof -
  obtain v where v: "name = Some v" "truthy v" using assms(1) by (cases name) simp_all
  then have "js_or name (JStr ''My Project'') = v" by simp
  moreover have "\<forall>s. v \<noteq> JStr s" using assms(2) v(1) by simp
  ultimately show ?thesis by (cases v) (simp_all add: safeProjectName_def)
qed

text \<open>
  Claim C7. For every name, a string or not: when the derivation gives a key, the key is
  the name (or the default name, for a name that is falsy) with every character outside
  \<^verbatim>\<open>[A-Za-z0-9_-]\<close> replaced by an underscore and every other character kept, it consists
  of allowed characters only, and deriving the key of the key gives the key again. Every
  string name has a key. A name that is undefined, \<^verbatim>\<open>null\<close>, the empty string or
  otherwise falsy has the fixed key \<^verbatim>\<open>My_Project\<close>. For a truthy name that is not a
  string (a number, \<^verbatim>\<open>true\<close>, an array, an object) there is no key: the derivation raises
  a TypeError. The key is a function of the name alone, which is what determinism says.
\<close>

theorem safeProjectName_key:
  "(safeProjectName name = Inr k \<longrightarrow>
      safeProjectName (Some (JStr k)) = Inr k
      \<and> list_all safe_char k
      \<and> (\<exists>s. js_or name (JStr ''My Project'') = JStr s
             \<and> length k = length s
             \<and> (\<forall>i < length s. k ! i = (if safe_char (s ! i) then s ! i else CHR ''_''))))
   \<and> (\<exists>k'. safeProjectName (Some (JStr s')) = Inr k')
   \<and> (\<not> truthy_opt name \<longrightarrow> safeProjectName name = Inr ''My_Project'')
   \<and> (truthy_opt name \<and> (\<forall>s. name \<noteq> Some (JStr s)) \<longrightarrow>
        safeProjectName name
          = Inl (TypeError ''(name || \"My Project\").replace is not a function''))"
proof (intro conjI impI)
  assume key: "safeProjectName name = Inr k"
  then obtain s where s: "js_or name (JStr ''My Project'') = JStr s" "k = replace_unsafe s"
    using safeProjectName_Inr by blast
  show "safeProjectName (Some (JStr k)) = Inr k"
    using key by (rule safeProjectName_again)
  show "list_all safe_char k"
    by (simp add: s(2) replace_unsafe_safe)
  have "length k = length s
      \<and> (\<forall>i < length s. k ! i = (if safe_char (s ! i) then s ! i else CHR ''_''))"
    by (simp add: s(2) replace_unsafe_def)
  then show "\<exists>s. js_or name (JStr ''My Project'') = JStr s
             \<and> length k = length s
             \<and> (\<forall>i < length s. k ! i = (if safe_char (s ! i) then s ! i else CHR ''_''))"
    using s(1) by blast
next
  show "\<exists>k'. safeProjectName (Some (JStr s')) = Inr k'"
    by (simp add: safeProjectName_string)
next
  assume "\<not> truthy_opt name"
  then show "safeProjectName name = Inr ''My_Project''"
    by (rule safeProjectName_falsy)
next
  assume "truthy_opt name \<and> (\<forall>s. name \<noteq> Some (JStr s))"
  then show "safeProjectName name
          = Inl (TypeError ''(name || \"My Project\").replace is not a function'')"
    using safeProjectName_not_string by blast
qed

theorem safeProjectName_key_witness:
  "safeProjectName (Some (JStr ''../etc/my app'')) = Inr ''___etc_my_app''
   \<and> safeProjectName (Some (JStr ''___etc_my_app'')) = Inr ''___etc_my_app''
   \<and> list_all safe_char ''___etc_my_app''
   \<and> safeProjectName None = Inr ''My_Project''
   \<and> safeProjectName (Some (JStr [])) = Inr ''My_Project''
   \<and> safeProjectName (Some (JNum 5))
       = Inl (TypeError ''(name || \"My Project\").replace is not a function'')"
proof -
  have key: "safeProjectName (Some (JStr ''../etc/my app'')) = Inr ''___etc_my_app''"
    by (simp add: safeProjectName_def replace_unsafe_def safe_char_def)
  show ?thesis
    using safeProjectName_key [of "Some (JStr ''../etc/my app'')" "''___etc_my_app''"]
      safeProjectName_key [of None]
      safeProjectName_key [of "Some (JStr [])"]
      safeProjectName_key [of "Some (JNum 5)"]
      key
    by simp
qed










text \<open>
  In general, on a file that parses to something other than an array the append raises,
  and nothing is written.
\<close>

lemma save_on_non_array:
  assumes "get_scans fs name = Scans h" and "\<nexists>entries. h = JArr entries"
  shows "\<exists>m. saveScanHistory fs (JStr name) r = Inl (TypeError m)"
proof -
  obtain k where k: "safeProjectName (Some (JStr name)) = Inr k"
    by (simp add: safeProjectName_string)
  have "history fs (k @ ''.json'') = Some (JSONText h)"
    using assms k by (auto simp: get_scans_def split: option.splits file_content.splits)
  then show ?thesis
    using assms(2) k by (cases h) (simp_all add: saveScanHistory_def Let_def)
qed

section \<open>The trigger\<close>

lemma audit_step_retag:
  "audit_step t2 scanId outcome
   = (fst (audit_step t1 scanId outcome), map (retag t2) (snd (audit_step t1 scanId outcome)))"
  by (simp add: audit_step_def split: exec_outcome.split stdout.split)

text \<open>
  A project name that has no string form: the scan raises at its first line, before
  the temporary directory is made, whatever the trigger.
\<close>

lemma runScanForProject_no_string_form:
  assumes "ToString js projName = Inl e"
  shows "runScanForProject js env fs packageJson projName sourceTag = (Inl e, fs, [])"
  using assms by (simp add: runScanForProject_def)

text \<open>
  Claim C9. Two runs of a scan on the same manifest and project name, in the same
  environment and on the same files, that differ in the trigger alone return the same
  result (or raise the same exception) and leave the same files, the history with its
  new entry among them. The trigger shows on the console only: the lines of one run are
  the lines of the other under the other tag.
\<close>

theorem trigger_only_labels_console:
  "fst (runScanForProject js env fs packageJson projName tag1)
     = fst (runScanForProject js env fs packageJson projName tag2)
   \<and> fst (snd (runScanForProject js env fs packageJson projName tag1))
     = fst (snd (runScanForProject js env fs packageJson projName tag2))
   \<and> history (fst (snd (runScanForProject js env fs packageJson projName tag1)))
     = history (fst (snd (runScanForProject js env fs packageJson projName tag2)))
   \<and> snd (snd (runScanForProject js env fs packageJson projName tag2))
     = map (retag tag2) (snd (snd (runScanForProject js env fs packageJson projName tag1)))"
proof (cases "ToString js projName")
  case (Inl e)
  then show ?thesis by (simp add: runScanForProject_def)
next
  case (Inr shown)
  obtain a l where a1: "audit_step tag1 (uuid env) (npm_audit env) = (a, l)"
    by (cases "audit_step tag1 (uuid env) (npm_audit env)")
  have a2: "audit_step tag2 (uuid env) (npm_audit env) = (a, map (retag tag2) l)"
    using audit_step_retag [of tag2 "uuid env" "npm_audit env" tag1] a1 by simp
  show ?thesis
    by (cases a)
      (auto simp: runScanForProject_def Let_def Inr a1 a2 split: sum.splits option.splits)
qed

theorem trigger_only_labels_console_witness:
  "\<forall>js. fst (runScanForProject js lodash_env no_files (JObj []) (JStr ''shop'') ''MONITOR'')
          = Inr lodash_result
        \<and> history (fst (snd (runScanForProject js lodash_env no_files (JObj []) (JStr ''shop'') ''MONITOR'')))
          = history (fst (snd (runScanForProject js lodash_env no_files (JObj []) (JStr ''shop'') ''MANUAL'')))"
  using trigger_only_labels_console
    [of _ lodash_env no_files "JObj []" "JStr ''shop''" "''MONITOR''" "''MANUAL''"]
  by (simp add: lodash_scan)

section \<open>The audit step\<close>

lemma runScanForProject_audit_failure:
  assumes "ToString js projName = Inr shown"
    and "fst (audit_step sourceTag (uuid env) (npm_audit env)) = Inl e"
  shows "fst (runScanForProject js env fs packageJson projName sourceTag) = Inl e
         \<and> fst (snd (runScanForProject js env fs packageJson projName sourceTag))
             = fs\<lparr>tmp := (tmp fs)(uuid env \<mapsto> packageJson)\<rparr>"
  using assms by (auto simp: runScanForProject_def Let_def split: prod.splits sum.splits)

text \<open>
  What the audit step does when the process exits with a non-zero code: an output that
  parses is taken as the audit output, and the scan goes on as after an exit with code
  0 and the same output; no output raises the error of kind AuditExecutionFailed; an
  output that does not parse raises the error of kind AuditOutputMalformed. The two
  errors leave the function before the extraction: the history is as it was.
\<close>

lemma audit_nonzero_exit_parsed:
  "fst (runScanForProject js (env\<lparr>npm_audit := Rejected msg (Parses j)\<rparr>) fs packageJson projName sourceTag)
   = fst (runScanForProject js (env\<lparr>npm_audit := Resolved (Parses j)\<rparr>) fs packageJson projName sourceTag)
   \<and> fst (snd (runScanForProject js (env\<lparr>npm_audit := Rejected msg (Parses j)\<rparr>) fs packageJson
                 projName sourceTag))
     = fst (snd (runScanForProject js (env\<lparr>npm_audit := Resolved (Parses j)\<rparr>) fs packageJson
                   projName sourceTag))"
  by (auto simp: runScanForProject_def audit_step_def assemble_result_def Let_def
      split: sum.splits option.splits)

lemma audit_failed_no_output:
  assumes "ToString js projName = Inr shown"
  shows "fst (runScanForProject js (env\<lparr>npm_audit := Rejected msg NoOutput\<rparr>) fs packageJson
                projName sourceTag)
         = Inl (AuditExecutionFailed msg)
         \<and> history (fst (snd (runScanForProject js (env\<lparr>npm_audit := Rejected msg NoOutput\<rparr>) fs
                          packageJson projName sourceTag)))
           = history fs"
  using runScanForProject_audit_failure
    [OF assms, of sourceTag "env\<lparr>npm_audit := Rejected msg NoOutput\<rparr>" "AuditExecutionFailed msg"]
  by (simp add: audit_step_def AuditExecutionFailed_def)

lemma audit_failed_unparseable:
  assumes "ToString js projName = Inr shown"
  shows "fst (runScanForProject js (env\<lparr>npm_audit := Rejected msg (Unparseable m)\<rparr>) fs
                packageJson projName sourceTag)
         = Inl AuditOutputMalformed
         \<and> history (fst (snd (runScanForProject js (env\<lparr>npm_audit := Rejected msg (Unparseable m)\<rparr>)
                          fs packageJson projName sourceTag)))
           = history fs"
  using runScanForProject_audit_failure
    [OF assms, of sourceTag "env\<lparr>npm_audit := Rejected msg (Unparseable m)\<rparr>" AuditOutputMalformed]
  by (simp add: audit_step_def AuditOutputMalformed_def)

text \<open>
  Claim C1, where the code departs from it. The audit process exits with code 0 and
  prints a text that is not JSON, in a scan of a project whose name has a string form
  (every string, number and boolean has one). \<^verbatim>\<open>JSON.parse(stdout || '{}')\<close> raises
  inside the \<^verbatim>\<open>try\<close>; the handler written for a failed process catches the SyntaxError,
  finds no \<^verbatim>\<open>stdout\<close> on it and raises \<^verbatim>\<open>'npm audit failed: ' + e.message\<close>: the error of
  kind AuditExecutionFailed, where the claim has AuditOutputMalformed for an output that
  exists and does not parse.
\<close>

theorem audit_exit0_unparseable_misreported:
  assumes "ToString js projName = Inr shown"
  shows "fst (runScanForProject js (env\<lparr>npm_audit := Resolved (Unparseable m)\<rparr>) fs packageJson
                projName sourceTag)
         = Inl (AuditExecutionFailed m)
         \<and> AuditExecutionFailed m \<noteq> AuditOutputMalformed"
  using runScanForProject_audit_failure
    [OF assms, of sourceTag "env\<lparr>npm_audit := Resolved (Unparseable m)\<rparr>" "AuditExecutionFailed m"]
  by (simp add: audit_step_def AuditExecutionFailed_def AuditOutputMalformed_def)

theorem audit_exit0_unparseable_misreported_witness:
  "\<forall>js. fst (runScanForProject js
               (lodash_env\<lparr>npm_audit := Resolved (Unparseable ''Unexpected token < in JSON at position 0'')\<rparr>)
               no_files (JObj []) (JStr ''shop'') ''MANUAL'')
          = Inl (Error ''npm audit failed: Unexpected token < in JSON at position 0'')
        \<and> Error ''npm audit failed: Unexpected token < in JSON at position 0''
            \<noteq> AuditOutputMalformed"
proof (intro allI)
  fix js
  have shown: "ToString js (JStr ''shop'') = Inr ''shop''" by simp
  show "fst (runScanForProject js
               (lodash_env\<lparr>npm_audit := Resolved (Unparseable ''Unexpected token < in JSON at position 0'')\<rparr>)
               no_files (JObj []) (JStr ''shop'') ''MANUAL'')
          = Inl (Error ''npm audit failed: Unexpected token < in JSON at position 0'')
        \<and> Error ''npm audit failed: Unexpected token < in JSON at position 0''
            \<noteq> AuditOutputMalformed"
    using audit_exit0_unparseable_misreported
      [OF shown, where env = lodash_env and m = "''Unexpected token < in JSON at position 0''"
        and fs = no_files and packageJson = "JObj []" and sourceTag = "''MANUAL''"]
    by (simp add: AuditExecutionFailed_def)
qed

section \<open>The temporary directory\<close>

lemma teardown_after_success:
  assumes "runScanForProject js env fs packageJson projName sourceTag = (Inr result, fs', logs)"
    and "rm_failure env = None"
  shows "tmp fs' (uuid env) = None"
proof -
  have "tmp (fst (snd (runScanForProject js env fs packageJson projName sourceTag))) (uuid env) = None"
    using assms
    by (auto simp: runScanForProject_def Let_def split: prod.splits sum.splits)
  then show ?thesis by (simp add: assms(1))
qed

text \<open>
  Claim C2, where the code departs from it. The removal of the temporary directory is
  the last step of the function, after the history is saved, and no \<^verbatim>\<open>finally\<close> guards
  it. When the audit raises (here: the process fails and prints nothing, in a scan of
  a project whose name has a string form) the function is left at the \<^verbatim>\<open>throw\<close>, and
  the directory of the scan, with the manifest in it, is still there.
\<close>

theorem teardown_skipped_on_audit_failure:
  assumes "ToString js projName = Inr shown"
  shows "fst (runScanForProject js (env\<lparr>npm_audit := Rejected msg NoOutput\<rparr>) fs packageJson
                projName sourceTag)
         = Inl (AuditExecutionFailed msg)
         \<and> tmp (fst (snd (runScanForProject js (env\<lparr>npm_audit := Rejected msg NoOutput\<rparr>) fs
                            packageJson projName sourceTag)))
               (uuid env)
           = Some packageJson"
  using runScanForProject_audit_failure
    [OF assms, of sourceTag "env\<lparr>npm_audit := Rejected msg NoOutput\<rparr>" "AuditExecutionFailed msg"]
  by (simp add: audit_step_def AuditExecutionFailed_def)

theorem teardown_skipped_on_audit_failure_witness:
  "\<forall>js. fst (runScanForProject js failing_env no_files (JObj [(''name'', JStr ''shop'')])
               (JStr ''shop'') ''MANUAL'')
          = Inl (Error ''npm audit failed: spawn npm ENOENT'')
        \<and> tmp (fst (snd (runScanForProject js failing_env no_files (JObj [(''name'', JStr ''shop'')])
                           (JStr ''shop'') ''MANUAL'')))
              ''scan-2''
          = Some (JObj [(''name'', JStr ''shop'')])"
proof (intro allI)
  fix js
  have shown: "ToString js (JStr ''shop'') = Inr ''shop''" by simp
  have env: "failing_env\<lparr>npm_audit := Rejected ''spawn npm ENOENT'' NoOutput\<rparr> = failing_env"
    by (simp add: failing_env_def)
  show "fst (runScanForProject js failing_env no_files (JObj [(''name'', JStr ''shop'')])
               (JStr ''shop'') ''MANUAL'')
          = Inl (Error ''npm audit failed: spawn npm ENOENT'')
        \<and> tmp (fst (snd (runScanForProject js failing_env no_files (JObj [(''name'', JStr ''shop'')])
                           (JStr ''shop'') ''MANUAL'')))
              ''scan-2''
          = Some (JObj [(''name'', JStr ''shop'')])"
    using teardown_skipped_on_audit_failure
      [OF shown, where env = failing_env and msg = "''spawn npm ENOENT''" and fs = no_files
        and packageJson = "JObj [(''name'', JStr ''shop'')]" and sourceTag = "''MANUAL''"]
    by (simp add: env AuditExecutionFailed_def) (simp add: failing_env_def)
qed

section \<open>The records of the extractor\<close>

lemma js_or_truthy: "truthy d \<Longrightarrow> truthy (js_or a d)"
  by (cases a) simp_all

lemma issue_record_fields:
  assumes "issue_record js pkgName v idx issue = Inr r"
  shows "v_name r = pkgName \<and> v_package r = pkgName \<and> truthy (v_severity r)"
  using assms
  by (auto simp: issue_record_def Let_def js_or_truthy split: if_splits sum.splits option.splits)

lemma via_records_fields:
  assumes "via_records js pkgName v idx issues = Inr rs" and "r \<in> set rs"
  shows "v_name r = pkgName \<and> truthy (v_severity r)"
  using assms
proof (induction issues arbitrary: idx rs)
  case Nil
  then show ?case by simp
next
  case (Cons issue issues)
  then show ?case
    by (auto split: sum.splits dest: issue_record_fields)
qed

lemma via_records_length:
  "via_records js pkgName v idx issues = Inr rs \<Longrightarrow> length rs = length issues"
  by (induction issues arbitrary: idx rs) (auto split: sum.splits)

lemma entries_records_fields:
  assumes "entries_records js es = Inr vulns" and "r \<in> set vulns"
  shows "v_name r \<in> fst ` set es \<and> truthy (v_severity r)"
  using assms
proof (induction es arbitrary: vulns)
  case Nil
  then show ?case by simp
next
  case (Cons entry es)
  obtain pkgName v where entry: "entry = (pkgName, v)" by (cases entry)
  from Cons.prems(1) obtain rs others
    where rs: "via_records js pkgName v 0 (via_of v) = Inr rs"
      and others: "entries_records js es = Inr others"
      and vulns: "vulns = rs @ others"
    by (auto simp: entry split: if_splits sum.splits)
  from Cons.prems(2) vulns consider "r \<in> set rs" | "r \<in> set others" by auto
  then show ?case
  proof cases
    case 1
    then show ?thesis using via_records_fields [OF rs] by (simp add: entry)
  next
    case 2
    then show ?thesis using Cons.IH [OF others] by simp
  qed
qed

text \<open>
  What holds of the severity of a record: it is never missing or empty, and
  \<open>normalizeSeverity\<close>, which the counts apply to it, sends it to one of the four
  canonical values when it has a string form.
\<close>

lemma extracted_severity:
  assumes "extractVulnerabilitiesFromAudit js raw = Inr vulns" and "r \<in> set vulns"
  shows "truthy (v_severity r)
         \<and> (\<forall>sev. normalizeSeverity js (Some (v_severity r)) = Inr sev \<longrightarrow>
               sev = ''critical'' \<or> sev = ''high'' \<or> sev = ''moderate'' \<or> sev = ''low'')"
proof -
  have "truthy (v_severity r)"
    using assms
    by (auto simp: extractVulnerabilitiesFromAudit_def
        split: if_splits option.splits sum.splits dest: entries_records_fields)
  then show ?thesis using normalizeSeverity_canonical by blast
qed

text \<open>
  Claim C4, where the code departs from it. The extractor stores the severity as the
  audit output has it, \<^verbatim>\<open>issue.severity || v.severity || 'low'\<close>, and does not call
  \<open>normalizeSeverity\<close>; only \<^verbatim>\<open>buildSeverityCounts\<close> does. For an issue of severity
  \<^verbatim>\<open>info\<close> the record has the severity \<^verbatim>\<open>info\<close>, which is none of the four values,
  while the counts take it as \<^verbatim>\<open>low\<close>.
\<close>

theorem extracted_severity_is_raw:
  "extractVulnerabilitiesFromAudit js info_audit = Inr [info_record]
   \<and> v_severity info_record = JStr ''info''
   \<and> v_severity info_record \<noteq> JStr ''critical'' \<and> v_severity info_record \<noteq> JStr ''high''
   \<and> v_severity info_record \<noteq> JStr ''moderate'' \<and> v_severity info_record \<noteq> JStr ''low''
   \<and> normalizeSeverity js (Some (v_severity info_record)) = Inr ''low''
   \<and> buildSeverityCounts js [info_record]
       = Inr \<lparr>critical = 0, high = 0, moderate = 0, low = 1\<rparr>"
  by code_simp

section \<open>Dependencies of the reported packages\<close>

lemma assign_own_keys: "fst ` set (assign_own k c kvs) = insert k (fst ` set kvs)"
proof (induction kvs)
  case Nil
  show ?case by simp
next
  case (Cons p kvs)
  obtain k' c' where p: "p = (k', c')" by (cases p)
  show ?case
    by (cases "k' = k") (simp_all add: p Cons.IH insert_commute)
qed

lemma assign_count_keys:
  "fst ` set (assign_count k c kvs) = fst ` set kvs \<union> ({k} - {''__proto__''})"
  by (simp add: assign_count_def assign_own_keys)

lemma count_entries_keys:
  assumes "count_entries es acc = Inr vulnCounts"
  shows "fst ` set vulnCounts = fst ` set acc \<union> (fst ` set es - {''__proto__''})"
  using assms
proof (induction es arbitrary: acc)
  case Nil
  then show ?case by simp
next
  case (Cons entry es)
  obtain pkgName v where entry: "entry = (pkgName, v)" by (cases entry)
  from Cons.prems have "count_entries es (assign_count pkgName (length (via_of v)) acc) = Inr vulnCounts"
    by (simp add: entry split: if_splits)
  from Cons.IH [OF this] show ?case
    by (auto simp: entry assign_count_keys)
qed

lemma count_entries_total:
  "entries_records js es = Inr vulns \<Longrightarrow> \<exists>vulnCounts. count_entries es acc = Inr vulnCounts"
proof (induction es arbitrary: acc vulns)
  case Nil
  then show ?case by simp
next
  case (Cons entry es)
  obtain pkgName v where entry: "entry = (pkgName, v)" by (cases entry)
  from Cons.prems obtain others where "v \<noteq> JNull" and "entries_records js es = Inr others"
    by (auto simp: entry split: if_splits sum.splits)
  then show ?case using Cons.IH by (simp add: entry)
qed

text \<open>
  What holds between the two extractors: when the vulnerability extractor returns, so
  does the dependency extractor, and every package name of a vulnerability record other
  than \<^verbatim>\<open>__proto__\<close> is the name of a dependency record.
\<close>

lemma vulnerable_packages_are_dependencies:
  assumes "extractVulnerabilitiesFromAudit js raw = Inr vulns"
  shows "\<exists>deps. extractDependenciesFromAudit raw = Inr deps
           \<and> v_name ` set vulns - {''__proto__''} \<subseteq> d_name ` set deps"
proof (cases "truthy raw \<and> truthy_opt (get_prop raw ''vulnerabilities'')")
  case False
  then have "vulns = []"
    using assms
    by (auto simp: extractVulnerabilitiesFromAudit_def split: if_splits option.splits)
  moreover have "\<exists>deps. extractDependenciesFromAudit raw = Inr deps"
    using False
    by (auto simp: extractDependenciesFromAudit_def split: option.splits)
  ultimately show ?thesis by auto
next
  case True
  then obtain vs where vs: "get_prop raw ''vulnerabilities'' = Some vs" "truthy vs" "truthy raw"
    by (cases "get_prop raw ''vulnerabilities''") auto
  from assms vs obtain es where es: "Object_entries vs = Inr es" "entries_records js es = Inr vulns"
    by (auto simp: extractVulnerabilitiesFromAudit_def split: sum.splits)
  from count_entries_total [OF es(2), of "[]"]
  obtain vulnCounts where vc: "count_entries es [] = Inr vulnCounts" by blast
  have keys: "fst ` set vulnCounts = fst ` set es - {''__proto__''}"
    using count_entries_keys [OF vc] by simp
  have deps: "extractDependenciesFromAudit raw
      = Inr (map (dependency_of vulnCounts) (map fst vulnCounts))"
    using vs es(1) vc by (simp add: extractDependenciesFromAudit_def)
  have names: "d_name ` set (map (dependency_of vulnCounts) (map fst vulnCounts))
      = fst ` set vulnCounts"
    by (simp add: image_image dependency_of_def)
  have "v_name ` set vulns \<subseteq> fst ` set es"
    using entries_records_fields [OF es(2)] by auto
  then show ?thesis using deps names keys by auto
qed

text \<open>
  Claim C6, where the code departs from it. The audit output reports a package named
  \<^verbatim>\<open>__proto__\<close>. The vulnerability extractor reads the entries of the output and
  returns a record for this package. The dependency extractor first stores the count
  under the package name in the object \<^verbatim>\<open>vulnCounts\<close>; for this name the assignment
  creates no property, \<^verbatim>\<open>Object.keys(vulnCounts)\<close> is empty, and no dependency record is
  returned.
\<close>

theorem proto_package_without_dependency:
  "extractVulnerabilitiesFromAudit js proto_audit = Inr [proto_record]
   \<and> v_name proto_record = ''__proto__''
   \<and> extractDependenciesFromAudit proto_audit = Inr []"
  by code_simp

section \<open>The monitor registry\<close>

lemma Map_set_member: "(k, v) \<in> set (Map_set k v entries)"
  by (induction entries) auto

lemma Map_set_primitive: "is_primitive k \<Longrightarrow> map_of (Map_set k v entries) k = Some v"
  by (induction entries) auto

lemma Map_set_keeps_others: "k' \<noteq> k \<Longrightarrow> map_of (Map_set k v entries) k' = map_of entries k'"
  by (induction entries) auto

text \<open>
  One tick scans the entries in their order; the scan of an entry runs on the manifest
  of the entry, under its name and with the trigger \<^verbatim>\<open>MONITOR\<close>. An exception of a scan
  is caught and reported, and the tick goes on, unless the name of the entry has no
  string form: then the report raises, and the tick ends there.
\<close>

lemma monitor_scans_entry:
  "monitor_scans js envs i (before @ (projName, packageJson) # after) fs
   = (case monitor_scans js envs i before fs of
        (Some e0, fs1, l1) \<Rightarrow> (Some e0, fs1, l1)
      | (None, fs1, l1) \<Rightarrow>
          (case runScanForProject js (envs (i + length before)) fs1 packageJson projName ''MONITOR'' of
             (Inr r, fs2, l) \<Rightarrow>
               (case monitor_scans js envs (i + length before + 1) after fs2 of
                  (uncaught, fs3, ls) \<Rightarrow> (uncaught, fs3, l1 @ l @ ls))
           | (Inl e, fs2, l) \<Rightarrow>
               (case ToString js projName of
                  Inl e' \<Rightarrow> (Some e', fs2, l1 @ l)
                | Inr shown \<Rightarrow>
                    (case monitor_scans js envs (i + length before + 1) after fs2 of
                       (uncaught, fs3, ls) \<Rightarrow>
                         (uncaught, fs3,
                          l1 @ l @ [MonitorFailed shown (error_message e)] @ ls)))))"
proof (induction before arbitrary: i fs)
  case Nil
  show ?case by (simp split: prod.splits sum.splits option.splits)
next
  case (Cons entry before)
  obtain n p where entry: "entry = (n, p)" by (cases entry)
  show ?case
    using Cons.IH [of "i + 1"]
    by (simp add: entry split: prod.splits sum.splits option.splits)
qed

lemma post_scan_registers:
  assumes "get_prop body ''packageJson'' = Some packageJson" and "truthy packageJson"
  shows "monitoredProjects (fst (snd (post_scan js env st body)))
           = Map_set (request_name body packageJson) packageJson (monitoredProjects st)
         \<and> (\<exists>outcome fs' l.
               runScanForProject js env (disk st) packageJson (request_name body packageJson) ''MANUAL''
                 = (outcome, fs', l)
               \<and> fst (post_scan js env st body)
                   = (case outcome of
                        Inr result \<Rightarrow> Ok200 result
                      | Inl e \<Rightarrow>
                          ServerError500
                            (if error_message e = [] then ''Scan failed'' else error_message e)))"
proof -
  have body: "body \<noteq> JNull" using assms(1) by auto
  obtain outcome fs' l where run:
    "runScanForProject js env (disk st) packageJson (request_name body packageJson) ''MANUAL''
       = (outcome, fs', l)"
    by (cases "runScanForProject js env (disk st) packageJson (request_name body packageJson)
          ''MANUAL''")
  show ?thesis
    using body assms run
    by (cases outcome) (simp_all add: post_scan_def Let_def)
qed

text \<open>
  Claim C10. A request with a manifest registers the project before the scan runs: for
  every such request, whatever the scan does, the registry after the request is the
  registry before it with the project name set to the submitted manifest. In
  particular, when the scan raises and the request is answered with status 500, the
  entry is there, and it is the entry of this name when the name is a string. At the
  next tick of the monitor the entry is in its place in the order of the registry: the
  tick first scans the entries before it; unless one of these scans ended the tick (the
  report of a failed scan raises when the name of its entry has no string form), the
  tick then scans this manifest under this name with the trigger \<^verbatim>\<open>MONITOR\<close>; when this
  scan raises, the failure is reported and the tick goes on with the entries after it,
  or, for a name with no string form, the report raises and the tick ends.
\<close>

theorem registration_survives_failure:
  assumes "get_prop body ''packageJson'' = Some packageJson" and "truthy packageJson"
  shows "monitoredProjects (fst (snd (post_scan js env st body)))
           = Map_set (request_name body packageJson) packageJson (monitoredProjects st)
         \<and> (request_name body packageJson, packageJson)
             \<in> set (monitoredProjects (fst (snd (post_scan js env st body))))
         \<and> (is_primitive (request_name body packageJson) \<longrightarrow>
               map_of (monitoredProjects (fst (snd (post_scan js env st body))))
                 (request_name body packageJson) = Some packageJson)
         \<and> (\<forall>e. fst (runScanForProject js env (disk st) packageJson
                         (request_name body packageJson) ''MANUAL'') = Inl e \<longrightarrow>
                  fst (post_scan js env st body)
                    = ServerError500 (if error_message e = [] then ''Scan failed''
                                      else error_message e))
         \<and> (\<exists>before after.
               monitoredProjects (fst (snd (post_scan js env st body)))
                 = before @ (request_name body packageJson, packageJson) # after
               \<and> (\<forall>envs fs.
                     monitor_scans js envs 0
                         (monitoredProjects (fst (snd (post_scan js env st body)))) fs
                     = (case monitor_scans js envs 0 before fs of
                          (Some e0, fs1, l1) \<Rightarrow> (Some e0, fs1, l1)
                        | (None, fs1, l1) \<Rightarrow>
                            (case runScanForProject js (envs (length before)) fs1 packageJson
                                    (request_name body packageJson) ''MONITOR'' of
                               (Inr r, fs2, l) \<Rightarrow>
                                 (case monitor_scans js envs (length before + 1) after fs2 of
                                    (uncaught, fs3, ls) \<Rightarrow> (uncaught, fs3, l1 @ l @ ls))
                             | (Inl e, fs2, l) \<Rightarrow>
                                 (case ToString js (request_name body packageJson) of
                                    Inl e' \<Rightarrow> (Some e', fs2, l1 @ l)
                                  | Inr shown \<Rightarrow>
                                      (case monitor_scans js envs (length before + 1) after fs2 of
                                         (uncaught, fs3, ls) \<Rightarrow>
                                           (uncaught, fs3,
                                            l1 @ l @ [MonitorFailed shown (error_message e)]
                                              @ ls)))))))"
proof -
  let ?name = "request_name body packageJson"
  let ?registry = "monitoredProjects (fst (snd (post_scan js env st body)))"
  from post_scan_registers [OF assms, of js env st]
  have reg: "?registry = Map_set ?name packageJson (monitoredProjects st)"
    and resp: "\<exists>outcome fs' l.
               runScanForProject js env (disk st) packageJson ?name ''MANUAL'' = (outcome, fs', l)
               \<and> fst (post_scan js env st body)
                   = (case outcome of
                        Inr result \<Rightarrow> Ok200 result
                      | Inl e \<Rightarrow>
                          ServerError500
                            (if error_message e = [] then ''Scan failed'' else error_message e))"
    by blast+
  have mem: "(?name, packageJson) \<in> set ?registry"
    by (simp add: reg Map_set_member)
  have prim: "is_primitive ?name \<longrightarrow> map_of ?registry ?name = Some packageJson"
    by (simp add: reg Map_set_primitive)
  have fail: "\<forall>e. fst (runScanForProject js env (disk st) packageJson ?name ''MANUAL'') = Inl e \<longrightarrow>
      fst (post_scan js env st body)
        = ServerError500 (if error_message e = [] then ''Scan failed'' else error_message e)"
    using resp by auto
  from mem obtain before after where split: "?registry = before @ (?name, packageJson) # after"
    by (auto dest: split_list)
  have tick: "\<forall>envs fs.
      monitor_scans js envs 0 ?registry fs
      = (case monitor_scans js envs 0 before fs of
           (Some e0, fs1, l1) \<Rightarrow> (Some e0, fs1, l1)
         | (None, fs1, l1) \<Rightarrow>
             (case runScanForProject js (envs (length before)) fs1 packageJson ?name ''MONITOR'' of
                (Inr r, fs2, l) \<Rightarrow>
                  (case monitor_scans js envs (length before + 1) after fs2 of
                     (uncaught, fs3, ls) \<Rightarrow> (uncaught, fs3, l1 @ l @ ls))
              | (Inl e, fs2, l) \<Rightarrow>
                  (case ToString js ?name of
                     Inl e' \<Rightarrow> (Some e', fs2, l1 @ l)
                   | Inr shown \<Rightarrow>
                       (case monitor_scans js envs (length before + 1) after fs2 of
                          (uncaught, fs3, ls) \<Rightarrow>
                            (uncaught, fs3,
                             l1 @ l @ [MonitorFailed shown (error_message e)] @ ls)))))"
    using monitor_scans_entry [of js _ 0 before ?name packageJson after]
    by (simp add: split cong: prod.case_cong option.case_cong sum.case_cong)
  show ?thesis
    using reg mem prim fail split tick by blast
qed

theorem registration_survives_failure_witness:
  "\<forall>js. fst (post_scan js failing_env \<lparr>monitoredProjects = [], disk = no_files\<rparr> shop_request)
          = ServerError500 ''npm audit failed: spawn npm ENOENT''
        \<and> monitoredProjects
            (fst (snd (post_scan js failing_env \<lparr>monitoredProjects = [], disk = no_files\<rparr>
                         shop_request)))
          = [(JStr ''shop'', JObj [(''name'', JStr ''shop'')])]
        \<and> fst (monitor_scans js (\<lambda>i. failing_env) 0
                 (monitoredProjects
                    (fst (snd (post_scan js failing_env \<lparr>monitoredProjects = [], disk = no_files\<rparr>
                                 shop_request))))
                 no_files)
          = None
        \<and> MonitorFailed ''shop'' ''npm audit failed: spawn npm ENOENT''
            \<in> set (snd (snd (monitor_scans js (\<lambda>i. failing_env) 0
                 (monitoredProjects
                    (fst (snd (post_scan js failing_env \<lparr>monitoredProjects = [], disk = no_files\<rparr>
                                 shop_request))))
                 no_files)))"
proof (intro allI)
  fix js
  have body: "get_prop shop_request ''packageJson'' = Some (JObj [(''name'', JStr ''shop'')])"
    by (simp add: shop_request_def)
  have pkg: "truthy (JObj [(''name'', JStr ''shop'')])"
    by simp
  have name: "request_name shop_request (JObj [(''name'', JStr ''shop'')]) = JStr ''shop''"
    by (simp add: request_name_def shop_request_def)
  have run: "fst (runScanForProject js failing_env fs (JObj [(''name'', JStr ''shop'')])
                    (JStr ''shop'') tag)
             = Inl (Error ''npm audit failed: spawn npm ENOENT'')" for fs tag
    by (simp add: runScanForProject_def audit_step_def failing_env_def Let_def)
  have registry: "fst (post_scan js failing_env \<lparr>monitoredProjects = [], disk = no_files\<rparr> shop_request)
          = ServerError500 ''npm audit failed: spawn npm ENOENT''
        \<and> monitoredProjects
            (fst (snd (post_scan js failing_env \<lparr>monitoredProjects = [], disk = no_files\<rparr>
                         shop_request)))
          = [(JStr ''shop'', JObj [(''name'', JStr ''shop'')])]"
    using registration_survives_failure
      [OF body pkg, of js failing_env "\<lparr>monitoredProjects = [], disk = no_files\<rparr>"] run
    by (simp add: name)
  have tick: "fst (monitor_scans js (\<lambda>i. failing_env) 0
                 [(JStr ''shop'', JObj [(''name'', JStr ''shop'')])] no_files) = None
        \<and> MonitorFailed ''shop'' ''npm audit failed: spawn npm ENOENT''
            \<in> set (snd (snd (monitor_scans js (\<lambda>i. failing_env) 0
                 [(JStr ''shop'', JObj [(''name'', JStr ''shop'')])] no_files)))"
    using run [of no_files "''MONITOR''"]
    by (auto split: prod.splits sum.splits)
  show "fst (post_scan js failing_env \<lparr>monitoredProjects = [], disk = no_files\<rparr> shop_request)
          = ServerError500 ''npm audit failed: spawn npm ENOENT''
        \<and> monitoredProjects
            (fst (snd (post_scan js failing_env \<lparr>monitoredProjects = [], disk = no_files\<rparr>
                         shop_request)))
          = [(JStr ''shop'', JObj [(''name'', JStr ''shop'')])]
        \<and> fst (monitor_scans js (\<lambda>i. failing_env) 0
                 (monitoredProjects
                    (fst (snd (post_scan js failing_env \<lparr>monitoredProjects = [], disk = no_files\<rparr>
                                 shop_request))))
                 no_files)
          = None
        \<and> MonitorFailed ''shop'' ''npm audit failed: spawn npm ENOENT''
            \<in> set (snd (snd (monitor_scans js (\<lambda>i. failing_env) 0
                 (monitoredProjects
                    (fst (snd (post_scan js failing_env \<lparr>monitoredProjects = [], disk = no_files\<rparr>
                                 shop_request))))
                 no_files)))"
    using registry tick by simp
qed

text \<open>
  A project registered under a name that has no string form: the request is answered
  with status 500, the entry is registered, and the tick ends at this entry with the
  exception of the report.
\<close>

lemma tick_ends_at_name_without_string_form:
  assumes "ToString js projName = Inl e"
  shows "monitor_scans js envs i ((projName, packageJson) # rest) fs = (Some e, fs, [])"
  using assms by (simp add: runScanForProject_no_string_form)

end
